theory Spec2Isabelle
  imports Complex_Main
begin

section \<open>JavaScript values used by the handlers\<close>

text \<open>
  A JavaScript number is kept as the real it denotes, with the three special values
  that \<open>parseFloat\<close> can return. The handlers only store and copy numbers: they do no
  arithmetic on them.
\<close>

datatype jsnum = Fin real | NaN | PosInf | NegInf

text \<open>
  The values found in the \<open>seeds\<close> object: numbers, strings and arrays of strings.
  The object itself is a map from property names to values; a property that is
  \<open>undefined\<close> is an absent key.
\<close>

datatype jsval = JNum jsnum | JStr string | JList "string list"

type_synonym seeds = "string \<rightharpoonup> jsval"

text \<open>Truthiness of a request parameter: \<open>undefined\<close> and the empty string are falsy.\<close>

fun given :: "string option \<Rightarrow> bool" where
  "given None = False"
| "given (Some s) = (s \<noteq> [])"

text \<open>Truthiness of a value of the \<open>seeds\<close> object; every array is truthy.\<close>

fun truthy :: "jsval option \<Rightarrow> bool" where
  "truthy None = False"
| "truthy (Some (JNum (Fin x))) = (x \<noteq> 0)"
| "truthy (Some (JNum NaN)) = False"
| "truthy (Some (JNum PosInf)) = True"
| "truthy (Some (JNum NegInf)) = True"
| "truthy (Some (JStr s)) = (s \<noteq> [])"
| "truthy (Some (JList xs)) = True"

subsection \<open>\<open>String.prototype.split(',')\<close> and \<open>Array.prototype.join(',')\<close>\<close>

fun split_acc :: "string \<Rightarrow> string \<Rightarrow> string list" where
  "split_acc cur [] = [rev cur]"
| "split_acc cur (c # cs) =
     (if c = CHR '','' then rev cur # split_acc [] cs else split_acc (c # cur) cs)"

definition split_comma :: "string \<Rightarrow> string list" where
  "split_comma s = split_acc [] s"

fun join_comma :: "string list \<Rightarrow> string" where
  "join_comma [] = []"
| "join_comma [x] = x"
| "join_comma (x # y # ys) = x @ '','' @ join_comma (y # ys)"

subsection \<open>The platform's built-ins\<close>

text \<open>
  The handlers call three built-ins of the JavaScript platform and of the schema
  library: \<open>parseFloat\<close>, \<open>String.prototype.trim\<close> and, when a number is stored in a
  string field, \<open>Number.prototype.toString\<close>. They are not code of this repository, so
  every handler takes them as a parameter, and every theorem about a handler holds for
  all of them. A string is a list of code units, and the type \<open>char\<close> holds the code
  units below 256; \<open>white_space\<close> is the class of code units that \<open>trim\<close> strips (the
  language's white space and line terminators).
\<close>

record platform =
  parseFloat :: "string \<Rightarrow> jsnum"
  white_space :: "char \<Rightarrow> bool"
  number_text :: "real \<Rightarrow> string"



section \<open>The seed builder of \<open>GET /api/recommendations\<close>\<close>

text \<open>
  The query parameters the handler destructures from \<open>req.query\<close>; each is a string
  when present.
\<close>

record rec_query =
  q_seed_genres :: "string option"
  q_seed_artists :: "string option"
  q_seed_tracks :: "string option"
  q_user_id :: "string option"
  q_mood :: "string option"
  q_energy_level :: "string option"
  q_dance_level :: "string option"

text \<open>Basic seeds: each given parameter is split at commas.\<close>

definition basic_seeds :: "rec_query \<Rightarrow> seeds" where
  "basic_seeds q =
     (let s0 = Map.empty;
          s1 = (if given (q_seed_genres q)
                then s0(''seed_genres'' \<mapsto> JList (split_comma (the (q_seed_genres q)))) else s0);
          s2 = (if given (q_seed_artists q)
                then s1(''seed_artists'' \<mapsto> JList (split_comma (the (q_seed_artists q)))) else s1);
          s3 = (if given (q_seed_tracks q)
                then s2(''seed_tracks'' \<mapsto> JList (split_comma (the (q_seed_tracks q)))) else s2)
      in s3)"

text \<open>The \<open>switch (mood)\<close> statement, with no default case.\<close>

definition mood_switch :: "string \<Rightarrow> seeds \<Rightarrow> seeds" where
  "mood_switch mood s =
     (if mood = ''happy'' then
        s(''target_valence'' \<mapsto> JNum (Fin 0.8), ''target_energy'' \<mapsto> JNum (Fin 0.7))
      else if mood = ''sad'' then
        s(''target_valence'' \<mapsto> JNum (Fin 0.2), ''target_energy'' \<mapsto> JNum (Fin 0.3))
      else if mood = ''energetic'' then
        s(''target_energy'' \<mapsto> JNum (Fin 0.9), ''target_danceability'' \<mapsto> JNum (Fin 0.8))
      else if mood = ''chill'' then
        s(''target_energy'' \<mapsto> JNum (Fin 0.3), ''target_valence'' \<mapsto> JNum (Fin 0.5))
      else if mood = ''focus'' then
        s(''target_energy'' \<mapsto> JNum (Fin 0.4), ''target_valence'' \<mapsto> JNum (Fin 0.6),
          ''min_instrumentalness'' \<mapsto> JNum (Fin 0.3))
      else s)"

definition apply_mood :: "string option \<Rightarrow> seeds \<Rightarrow> seeds" where
  "apply_mood mood s = (if given mood then mood_switch (the mood) s else s)"

text \<open>Manual preference overrides.\<close>

definition apply_overrides :: "platform \<Rightarrow> string option \<Rightarrow> string option \<Rightarrow> seeds \<Rightarrow> seeds" where
  "apply_overrides pl energy_level dance_level s =
     (let s1 = (if given energy_level
                then s(''target_energy'' \<mapsto> JNum (parseFloat pl (the energy_level))) else s);
          s2 = (if given dance_level
                then s1(''target_danceability'' \<mapsto> JNum (parseFloat pl (the dance_level))) else s1)
      in s2)"

section \<open>Errors\<close>

text \<open>
  Every \<open>throw\<close> and every rejected promise is a value. \<open>Error m\<close> is \<open>new Error(m)\<close> with
  a fixed message; the two template messages keep their parameters; \<open>TypeError\<close> is a
  property read on \<open>undefined\<close> or \<open>null\<close>; \<open>SyntaxError\<close> is a failed \<open>JSON.parse\<close>;
  \<open>Thrown m\<close> is an error object raised outside this code (transport, storage).
\<close>

datatype json =
    JNull | JBool bool | JNumber real | JString string
  | JArray "json list" | JObject "(string \<times> json) list"

datatype error =
    Error string
  | TokenRequestFailed nat
  | SpotifyApiError nat json
  | TypeError
  | SyntaxError
  | Thrown string

section \<open>The user model and the store behind it\<close>

text \<open>A String path of a stored document: not set, \<open>null\<close>, or a text.\<close>

datatype field = Unset | Null | Text string

record track =
  trackId :: field
  track_name :: field
  artist :: field
  album :: field
  imageUrl :: field
  previewUrl :: field
  savedAt :: nat

text \<open>
  The schema declares the paths of a saved track as \<open>String\<close>, and the schema library
  casts a value assigned to such a path: \<open>undefined\<close> and \<open>null\<close> stay, a string stays, a
  number or a boolean becomes its text, and an array or an object cannot be cast (the
  document then fails validation when it is saved).
\<close>

fun cast_string :: "platform \<Rightarrow> json option \<Rightarrow> field option" where
  "cast_string pl None = Some Unset"
| "cast_string pl (Some JNull) = Some Null"
| "cast_string pl (Some (JString s)) = Some (Text s)"
| "cast_string pl (Some (JNumber x)) = Some (Text (number_text pl x))"
| "cast_string pl (Some (JBool b)) = Some (Text (if b then ''true'' else ''false''))"
| "cast_string pl (Some (JArray xs)) = None"
| "cast_string pl (Some (JObject kvs)) = None"

text \<open>
  \<open>x === v\<close> for a stored path \<open>x\<close> and a value \<open>v\<close> of a request: true for two equal
  strings, for \<open>null\<close> and \<open>null\<close>, for \<open>undefined\<close> and \<open>undefined\<close>; a stored text is never
  \<open>===\<close> to a number or a boolean.
\<close>

fun strict_eq :: "field \<Rightarrow> json option \<Rightarrow> bool" where
  "strict_eq Unset None = True"
| "strict_eq Null (Some JNull) = True"
| "strict_eq (Text s) (Some (JString s')) = (s = s')"
| "strict_eq x v = False"

record prefs =
  energy :: jsnum
  danceability :: jsnum
  valence :: jsnum

record user =
  uid :: string
  name :: "string option"
  email :: string
  favoriteGenres :: "string list"
  savedTracks :: "track list"
  playlists :: "(string \<times> string list \<times> nat) list"
  preferences :: "prefs option"
  createdAt :: nat

text \<open>
  The storage engine is an external collaborator: a collection of documents, which can
  be unreachable, and which refuses an id it cannot cast to a document key. A query
  then throws.
\<close>

record store =
  docs :: "user list"
  online :: bool
  castable :: "string \<Rightarrow> bool"

definition findById :: "store \<Rightarrow> string \<Rightarrow> error + user option" where
  "findById st i =
     (if \<not> online st then Inl (Thrown ''store unreachable'')
      else if \<not> castable st i then Inl (Thrown ''Cast to ObjectId failed'')
      else Inr (find (\<lambda>u. uid u = i) (docs st)))"

definition findOne_email :: "store \<Rightarrow> string \<Rightarrow> error + user option" where
  "findOne_email st e =
     (if \<not> online st then Inl (Thrown ''store unreachable'')
      else Inr (find (\<lambda>u. email u = e) (docs st)))"

text \<open>\<open>save\<close> on a document that was read from the store replaces it.\<close>

definition save :: "store \<Rightarrow> user \<Rightarrow> error + store" where
  "save st u =
     (if \<not> online st then Inl (Thrown ''store unreachable'')
      else Inr (st\<lparr>docs := map (\<lambda>d. if uid d = uid u then u else d) (docs st)\<rparr>))"

text \<open>
  \<open>save\<close> on a new document validates the two required paths of the schema and
  appends the document.
\<close>

definition save_new :: "store \<Rightarrow> user \<Rightarrow> error + store" where
  "save_new st u =
     (if \<not> online st then Inl (Thrown ''store unreachable'')
      else if \<not> given (name u) \<or> email u = [] then Inl (Thrown ''User validation failed'')
      else Inr (st\<lparr>docs := docs st @ [u]\<rparr>))"

section \<open>The seed builder, continued: profile and default steps\<close>

text \<open>
  The block guarded by \<open>if (user_id)\<close>: the lookup is inside a \<open>try\<close> whose \<open>catch\<close> only
  logs, so a lookup that throws leaves the seeds as they are.
\<close>

definition apply_profile :: "error + user option \<Rightarrow> seeds \<Rightarrow> seeds" where
  "apply_profile found s =
     (case found of
        Inl userError \<Rightarrow> s
      | Inr None \<Rightarrow> s
      | Inr (Some u) \<Rightarrow>
          (case preferences u of
             None \<Rightarrow> s
           | Some p \<Rightarrow>
               (let s1 = s(''target_energy'' \<mapsto> JNum (energy p),
                           ''target_danceability'' \<mapsto> JNum (danceability p),
                           ''target_valence'' \<mapsto> JNum (valence p))
                in if favoriteGenres u \<noteq> []
                   then s1(''seed_genres'' \<mapsto> JList (take 3 (favoriteGenres u)))
                   else s1)))"

definition personalize :: "store \<Rightarrow> string option \<Rightarrow> seeds \<Rightarrow> seeds" where
  "personalize st user_id s =
     (if given user_id then apply_profile (findById st (the user_id)) s else s)"

text \<open>Default genres, as \<open>src/server.js\<close> has it: only when no seed of any kind is set.\<close>

definition default_genres :: "seeds \<Rightarrow> seeds" where
  "default_genres s =
     (if \<not> truthy (s ''seed_genres'') \<and> \<not> truthy (s ''seed_artists'') \<and> \<not> truthy (s ''seed_tracks'')
      then s(''seed_genres'' \<mapsto> JList [''pop'', ''rock'', ''hip-hop''])
      else s)"

text \<open>
  Default genres, as the second server file (the one with the mock-data fallback) has
  it: whenever no genre seed is set.
\<close>

definition default_genres_mock :: "seeds \<Rightarrow> seeds" where
  "default_genres_mock s =
     (if \<not> truthy (s ''seed_genres'')
      then s(''seed_genres'' \<mapsto> JList [''pop'', ''rock'', ''hip-hop''])
      else s)"

text \<open>The seeds before the default step; the two server files agree on these steps.\<close>

definition seeds_before_default :: "platform \<Rightarrow> store \<Rightarrow> rec_query \<Rightarrow> seeds" where
  "seeds_before_default pl st q =
     personalize st (q_user_id q)
       (apply_overrides pl (q_energy_level q) (q_dance_level q)
          (apply_mood (q_mood q) (basic_seeds q)))"

definition build_seeds :: "platform \<Rightarrow> store \<Rightarrow> rec_query \<Rightarrow> seeds" where
  "build_seeds pl st q = default_genres (seeds_before_default pl st q)"

definition build_seeds_mock :: "platform \<Rightarrow> store \<Rightarrow> rec_query \<Rightarrow> seeds" where
  "build_seeds_mock pl st q = default_genres_mock (seeds_before_default pl st q)"

text \<open>A profile is resolved when the lookup finds a user that has a preferences object.\<close>

definition profile_resolved :: "store \<Rightarrow> string option \<Rightarrow> bool" where
  "profile_resolved st user_id =
     (given user_id
      \<and> (case findById st (the user_id) of
           Inl e \<Rightarrow> False
         | Inr None \<Rightarrow> False
         | Inr (Some u) \<Rightarrow> preferences u \<noteq> None))"

text \<open>Shape of the three seed properties the handler writes: unset, or an array.\<close>

definition seed_key :: "string \<Rightarrow> bool" where
  "seed_key k = (k = ''seed_genres'' \<or> k = ''seed_artists'' \<or> k = ''seed_tracks'')"

fun arr_or_undef :: "jsval option \<Rightarrow> bool" where
  "arr_or_undef None = True"
| "arr_or_undef (Some (JList xs)) = True"
| "arr_or_undef (Some v) = False"

section \<open>The access-token cache (\<open>src/spotify.js\<close>)\<close>

text \<open>
  The two module variables. \<open>tokenExpiry\<close> is a time in milliseconds; \<open>None\<close> stands for
  \<open>null\<close> and for \<open>NaN\<close>, which are both falsy and both compare false with \<open><\<close>.
\<close>

record token_cache =
  accessToken :: "string option"
  tokenExpiry :: "int option"

text \<open>
  The reply of the authorization endpoint, with the body as the contract types it:
  \<open>access_token\<close> a string and \<open>expires_in\<close> a whole number of seconds, each possibly
  missing.
\<close>

datatype auth_body = AuthGarbage | AuthJson "string option" "int option"

datatype auth_reply = AuthNetError string | AuthTimeout | AuthReply nat auth_body

text \<open>The parsed body of a catalog reply.\<close>

datatype api_body = Blank | Garbage | Parsed json

datatype api_reply = ApiNetError string | ApiTimeout | ApiReply nat api_body

text \<open>
  An endpoint is a path and its ordered query parameters. Values are kept as the
  JavaScript values handed to the template or to \<open>URLSearchParams.append\<close>; their
  conversion to text and percent-encoding are the platform's.
\<close>

type_synonym params = "(string \<times> jsval) list"

type_synonym endpoint = "string \<times> params"

datatype request = TokenRequest | ApiRequest string endpoint

text \<open>
  The outside world of one call: the clock at the cache check, the clock when the token
  reply ends, the token reply, and the catalog's reply to a bearer token and endpoint.
\<close>

record env =
  now :: nat
  auth_at :: nat
  auth :: auth_reply
  api :: "string \<Rightarrow> endpoint \<Rightarrow> api_reply"

text \<open>
  Every asynchronous function returns its result or error, the cache afterwards and
  the network requests it made, in order.
\<close>

type_synonym 'a io = "(error + 'a) \<times> token_cache \<times> request list"

definition cache_valid :: "nat \<Rightarrow> token_cache \<Rightarrow> bool" where
  "cache_valid t c =
     (given (accessToken c)
      \<and> (case tokenExpiry c of None \<Rightarrow> False | Some e \<Rightarrow> e \<noteq> 0 \<and> int t < e))"

definition getAccessToken :: "env \<Rightarrow> token_cache \<Rightarrow> string io" where
  "getAccessToken w c =
     (if cache_valid (now w) c then (Inr (the (accessToken c)), c, [])
      else
        (case auth w of
           AuthNetError m \<Rightarrow> (Inl (Thrown m), c, [TokenRequest])
         | AuthTimeout \<Rightarrow> (Inl (Error ''Token request timeout''), c, [TokenRequest])
         | AuthReply status body \<Rightarrow>
             if status \<noteq> 200 then (Inl (TokenRequestFailed status), c, [TokenRequest])
             else
               (case body of
                  AuthGarbage \<Rightarrow> (Inl SyntaxError, c, [TokenRequest])
                | AuthJson access_token expires_in \<Rightarrow>
                    if given access_token then
                      (Inr (the access_token),
                       \<lparr>accessToken = access_token,
                        tokenExpiry =
                          (case expires_in of
                             None \<Rightarrow> None
                           | Some l \<Rightarrow> Some (int (auth_at w) + (l - 60) * 1000))\<rparr>,
                       [TokenRequest])
                    else (Inl (Error ''No access token received''), c, [TokenRequest]))))"

section \<open>Catalog requests (\<open>src/spotify.js\<close>)\<close>

text \<open>Reading a property of a parsed value; \<open>None\<close> is \<open>undefined\<close>. The last duplicate key wins.\<close>

fun get_prop :: "json \<Rightarrow> string \<Rightarrow> json option" where
  "get_prop (JObject kvs) k = map_of (rev kvs) k"
| "get_prop v k = None"

fun json_truthy :: "json option \<Rightarrow> bool" where
  "json_truthy None = False"
| "json_truthy (Some JNull) = False"
| "json_truthy (Some (JBool b)) = b"
| "json_truthy (Some (JNumber x)) = (x \<noteq> 0)"
| "json_truthy (Some (JString s)) = (s \<noteq> [])"
| "json_truthy (Some (JArray xs)) = True"
| "json_truthy (Some (JObject kvs)) = True"

text \<open>\<open>x == null\<close>: reading a property of such a value throws.\<close>

fun nullish :: "json option \<Rightarrow> bool" where
  "nullish None = True"
| "nullish (Some JNull) = True"
| "nullish (Some v) = False"

text \<open>\<open>response.error?.message || 'Unknown error'\<close>\<close>

definition upstream_message :: "json \<Rightarrow> json" where
  "upstream_message response =
     (let err = get_prop response ''error'';
          msg = (if nullish err then None else get_prop (the err) ''message'')
      in if json_truthy msg then the msg else JString ''Unknown error'')"

definition makeSpotifyRequest :: "env \<Rightarrow> token_cache \<Rightarrow> endpoint \<Rightarrow> json io" where
  "makeSpotifyRequest w c endpoint =
     (case getAccessToken w c of
        (Inl e, c', reqs) \<Rightarrow> (Inl e, c', reqs)
      | (Inr token, c', reqs) \<Rightarrow>
          (let reqs' = reqs @ [ApiRequest token endpoint]
           in case api w token endpoint of
                ApiNetError m \<Rightarrow> (Inl (Thrown m), c', reqs')
              | ApiTimeout \<Rightarrow> (Inl (Error ''Request timeout''), c', reqs')
              | ApiReply status body \<Rightarrow>
                  (case body of
                     Blank \<Rightarrow> (Inl (Error ''Empty response from Spotify API''), c', reqs')
                   | Garbage \<Rightarrow> (Inl (Error ''Invalid JSON response from Spotify API''), c', reqs')
                   | Parsed response \<Rightarrow>
                       if status = 200 then (Inr response, c', reqs')
                       else if response = JNull
                       then (Inl (Error ''Invalid JSON response from Spotify API''), c', reqs')
                       else (Inl (SpotifyApiError status (upstream_message response)), c', reqs'))))"





subsection \<open>\<open>getRecommendations\<close>\<close>

text \<open>\<open>Array.isArray(x) ? x.join(',') : x\<close>\<close>

fun joined :: "jsval \<Rightarrow> jsval" where
  "joined (JList xs) = JStr (join_comma xs)"
| "joined v = v"

text \<open>\<open>if (seeds.k !== undefined) params.append(k, seeds.k)\<close>\<close>

definition append_defined :: "seeds \<Rightarrow> string \<Rightarrow> params \<Rightarrow> params" where
  "append_defined s k ps = (case s k of None \<Rightarrow> ps | Some v \<Rightarrow> ps @ [(k, v)])"

text \<open>The preference and range parameters, the same lines in both variants.\<close>

definition feature_params :: "seeds \<Rightarrow> params \<Rightarrow> params" where
  "feature_params s ps =
     (let ps = append_defined s ''target_energy'' ps;
          ps = append_defined s ''target_danceability'' ps;
          ps = append_defined s ''target_valence'' ps;
          ps = append_defined s ''target_popularity'' ps;
          ps = append_defined s ''min_energy'' ps;
          ps = append_defined s ''max_energy'' ps;
          ps = append_defined s ''min_danceability'' ps;
          ps = append_defined s ''max_danceability'' ps;
          ps = append_defined s ''min_valence'' ps;
          ps = append_defined s ''max_valence'' ps;
          ps = append_defined s ''min_tempo'' ps;
          ps = append_defined s ''max_tempo'' ps;
          ps = ps @ [(''limit'', JStr ''20'')];
          ps = ps @ [(''market'', JStr ''US'')]
      in ps)"

text \<open>First variant: one seed kind, genres before artists before tracks.\<close>

definition seed_params :: "seeds \<Rightarrow> params" where
  "seed_params s =
     (if truthy (s ''seed_genres'') then [(''seed_genres'', joined (the (s ''seed_genres'')))]
      else if truthy (s ''seed_artists'') then [(''seed_artists'', joined (the (s ''seed_artists'')))]
      else if truthy (s ''seed_tracks'') then [(''seed_tracks'', joined (the (s ''seed_tracks'')))]
      else [(''seed_genres'', JStr ''pop,rock,hip-hop'')])"

definition recommendation_params :: "seeds \<Rightarrow> params" where
  "recommendation_params s = feature_params s (seed_params s)"

text \<open>Second variant: a genre seed always, and each other seed kind that is set.\<close>

definition seed_params_v2 :: "seeds \<Rightarrow> params" where
  "seed_params_v2 s =
     (let ps = (if truthy (s ''seed_genres'')
                then [(''seed_genres'', joined (the (s ''seed_genres'')))]
                else [(''seed_genres'', JStr ''pop,rock,hip-hop'')]);
          ps = (if truthy (s ''seed_artists'')
                then ps @ [(''seed_artists'', joined (the (s ''seed_artists'')))] else ps);
          ps = (if truthy (s ''seed_tracks'')
                then ps @ [(''seed_tracks'', joined (the (s ''seed_tracks'')))] else ps)
      in ps)"

definition recommendation_params_v2 :: "seeds \<Rightarrow> params" where
  "recommendation_params_v2 s = feature_params s (seed_params_v2 s)"

definition getRecommendations :: "env \<Rightarrow> token_cache \<Rightarrow> seeds \<Rightarrow> json io" where
  "getRecommendations w c s =
     (case makeSpotifyRequest w c (''/v1/recommendations'', recommendation_params s) of
        (Inl e, c', reqs) \<Rightarrow> (Inl e, c', reqs)
      | (Inr data, c', reqs) \<Rightarrow>
          if data = JNull then (Inl TypeError, c', reqs)
          else if \<not> json_truthy (get_prop data ''tracks'')
          then (Inl (Error ''Invalid recommendations response format''), c', reqs)
          else (Inr (the (get_prop data ''tracks'')), c', reqs))"

definition getRecommendations_v2 :: "env \<Rightarrow> token_cache \<Rightarrow> seeds \<Rightarrow> json io" where
  "getRecommendations_v2 w c s =
     (case makeSpotifyRequest w c (''/v1/recommendations'', recommendation_params_v2 s) of
        (Inl e, c', reqs) \<Rightarrow> (Inl e, c', reqs)
      | (Inr data, c', reqs) \<Rightarrow>
          if data = JNull \<or> nullish (get_prop data ''tracks'') then (Inl TypeError, c', reqs)
          else (Inr (the (get_prop data ''tracks'')), c', reqs))"

text \<open>The keys a recommendations request can carry.\<close>

definition feature_keys :: "string list" where
  "feature_keys =
     [''target_energy'', ''target_danceability'', ''target_valence'', ''target_popularity'',
      ''min_energy'', ''max_energy'', ''min_danceability'', ''max_danceability'',
      ''min_valence'', ''max_valence'', ''min_tempo'', ''max_tempo'']"

text \<open>The parameter a defined property contributes, and the endpoints among logged requests.\<close>

definition defined_param :: "seeds \<Rightarrow> string \<Rightarrow> params" where
  "defined_param s k = (case s k of None \<Rightarrow> [] | Some v \<Rightarrow> [(k, v)])"

fun endpoints_of :: "request list \<Rightarrow> endpoint list" where
  "endpoints_of [] = []"
| "endpoints_of (TokenRequest # rs) = endpoints_of rs"
| "endpoints_of (ApiRequest token e # rs) = e # endpoints_of rs"

definition requests_of :: "'a io \<Rightarrow> request list" where
  "requests_of r = snd (snd r)"


section \<open>Request handlers (\<open>src/server.js\<close>)\<close>

text \<open>\<open>x.length\<close> of a parsed value: defined for arrays and strings.\<close>

fun js_length :: "json \<Rightarrow> nat option" where
  "js_length (JArray xs) = Some (length xs)"
| "js_length (JString s) = Some (length s)"
| "js_length v = None"

datatype payload =
    Failure string "error option"
  | RecommendationsBody json seeds "nat option"
  | TracksBody json "nat option" string
  | UserBody user
  | FavoritesBody string "track list"

datatype response = Response nat payload

text \<open>\<open>GET /api/recommendations\<close>\<close>

definition recommendations_handler ::
  "platform \<Rightarrow> env \<Rightarrow> token_cache \<Rightarrow> store \<Rightarrow> rec_query
     \<Rightarrow> response \<times> token_cache \<times> request list" where
  "recommendations_handler pl w c st q =
     (let seeds = build_seeds pl st q
      in case getRecommendations w c seeds of
           (Inl e, c', reqs) \<Rightarrow>
             (Response 500 (Failure ''Failed to get recommendations from Spotify'' (Some e)), c', reqs)
         | (Inr recommendations, c', reqs) \<Rightarrow>
             (Response 200 (RecommendationsBody recommendations seeds (js_length recommendations)),
              c', reqs))"


text \<open>\<open>POST /api/users\<close>; the id of a new document is the store's choice.\<close>

record user_body =
  b_name :: "string option"
  b_email :: string
  b_favoriteGenres :: "string list option"

definition create_user :: "store \<Rightarrow> string \<Rightarrow> nat \<Rightarrow> user_body \<Rightarrow> response \<times> store" where
  "create_user st new_id t b =
     (case findOne_email st (b_email b) of
        Inl e \<Rightarrow> (Response 500 (Failure ''Failed to create user'' None), st)
      | Inr (Some u) \<Rightarrow> (Response 200 (UserBody u), st)
      | Inr None \<Rightarrow>
          (let u = \<lparr>uid = new_id, name = b_name b, email = b_email b,
                    favoriteGenres =
                      (case b_favoriteGenres b of None \<Rightarrow> [''pop'', ''rock''] | Some gs \<Rightarrow> gs),
                    savedTracks = [], playlists = [],
                    preferences = Some \<lparr>energy = Fin 0.5, danceability = Fin 0.5, valence = Fin 0.5\<rparr>,
                    createdAt = t\<rparr>
           in case save_new st u of
                Inl e \<Rightarrow> (Response 500 (Failure ''Failed to create user'' None), st)
              | Inr st' \<Rightarrow> (Response 201 (UserBody u), st')))"

text \<open>
  \<open>POST /api/users/:userId/favorites\<close>. The fields of the body are the parsed JSON
  values, compared as they are and cast when pushed.
\<close>

record favorite_body =
  b_trackId :: "json option"
  b_track_name :: "json option"
  b_artist :: "json option"
  b_album :: "json option"
  b_imageUrl :: "json option"
  b_previewUrl :: "json option"

definition cast_track :: "platform \<Rightarrow> nat \<Rightarrow> favorite_body \<Rightarrow> track option" where
  "cast_track pl t b =
     Option.bind (cast_string pl (b_trackId b)) (\<lambda>i.
     Option.bind (cast_string pl (b_track_name b)) (\<lambda>n.
     Option.bind (cast_string pl (b_artist b)) (\<lambda>ar.
     Option.bind (cast_string pl (b_album b)) (\<lambda>al.
     Option.bind (cast_string pl (b_imageUrl b)) (\<lambda>im.
     Option.bind (cast_string pl (b_previewUrl b)) (\<lambda>pr.
       Some \<lparr>trackId = i, track_name = n, artist = ar, album = al, imageUrl = im,
             previewUrl = pr, savedAt = t\<rparr>))))))"

definition add_favorite ::
  "platform \<Rightarrow> store \<Rightarrow> string \<Rightarrow> nat \<Rightarrow> favorite_body \<Rightarrow> response \<times> store" where
  "add_favorite pl st userId t b =
     (case findById st userId of
        Inl e \<Rightarrow> (Response 500 (Failure ''Failed to save track'' None), st)
      | Inr None \<Rightarrow> (Response 404 (Failure ''User not found'' None), st)
      | Inr (Some u) \<Rightarrow>
          (case find (\<lambda>track. strict_eq (trackId track) (b_trackId b)) (savedTracks u) of
             Some existingTrack \<Rightarrow> (Response 400 (Failure ''Track already in favorites'' None), st)
           | None \<Rightarrow>
               (case cast_track pl t b of
                  None \<Rightarrow> (Response 500 (Failure ''Failed to save track'' None), st)
                | Some pushed \<Rightarrow>
                    (let u' = u\<lparr>savedTracks := savedTracks u @ [pushed]\<rparr>
                     in case save st u' of
                          Inl e \<Rightarrow> (Response 500 (Failure ''Failed to save track'' None), st)
                        | Inr st' \<Rightarrow>
                            (Response 200
                               (FavoritesBody ''Track added to favorites'' (savedTracks u')),
                             st')))))"

text \<open>\<open>DELETE /api/users/:userId/favorites/:trackId\<close>; the id is a string of the path.\<close>

definition remove_favorite :: "store \<Rightarrow> string \<Rightarrow> string \<Rightarrow> response \<times> store" where
  "remove_favorite st userId tid =
     (case findById st userId of
        Inl e \<Rightarrow> (Response 500 (Failure ''Failed to remove track'' None), st)
      | Inr None \<Rightarrow> (Response 404 (Failure ''User not found'' None), st)
      | Inr (Some u) \<Rightarrow>
          (let u' = u\<lparr>savedTracks :=
                       filter (\<lambda>track. \<not> strict_eq (trackId track) (Some (JString tid)))
                         (savedTracks u)\<rparr>
           in case save st u' of
                Inl e \<Rightarrow> (Response 500 (Failure ''Failed to remove track'' None), st)
              | Inr st' \<Rightarrow>
                  (Response 200 (FavoritesBody ''Track removed from favorites'' (savedTracks u')),
                   st')))"

text \<open>Track ids are unique within a profile.\<close>

definition unique_tracks :: "user \<Rightarrow> bool" where
  "unique_tracks u = distinct (map trackId (savedTracks u))"

section \<open>Inputs of the examples\<close>

subsection \<open>A platform\<close>

text \<open>
  The examples need one platform to run on. Its white space is the language's white
  space among the code units below 256. Its \<open>parseFloat\<close> skips leading white space,
  then reads the longest prefix that is a decimal literal: an optional sign, then
  \<open>Infinity\<close> or digits with an optional fraction and an optional exponent; with no
  such prefix the result is \<open>NaN\<close>, and a value too large for a double is infinite.
  Rounding to the nearest double is left out. Its \<open>number_text\<close> is the decimal
  numeral of a whole number. No theorem about a handler depends on these choices.
\<close>

definition latin1_space :: "char \<Rightarrow> bool" where
  "latin1_space c =
     (c = CHR '' '' \<or> c = CHR 0x09 \<or> c = CHR 0x0A \<or> c = CHR 0x0B \<or> c = CHR 0x0C \<or> c = CHR 0x0D
      \<or> c = CHR 0xA0)"

fun index_of :: "char \<Rightarrow> string \<Rightarrow> nat option" where
  "index_of c [] = None"
| "index_of c (d # ds) = (if c = d then Some 0 else map_option Suc (index_of c ds))"

definition digit_of :: "char \<Rightarrow> nat option" where
  "digit_of c = index_of c ''0123456789''"

definition isDigit :: "char \<Rightarrow> bool" where
  "isDigit c = (digit_of c \<noteq> None)"

fun digits_val :: "nat \<Rightarrow> string \<Rightarrow> nat" where
  "digits_val acc [] = acc"
| "digits_val acc (c # cs) =
     digits_val (10 * acc + (case digit_of c of None \<Rightarrow> 0 | Some d \<Rightarrow> d)) cs"

definition strip_sign :: "string \<Rightarrow> bool \<times> string" where
  "strip_sign s =
     (case s of
        [] \<Rightarrow> (False, [])
      | c # cs \<Rightarrow> if c = CHR ''-'' then (True, cs)
                 else if c = CHR ''+'' then (False, cs) else (False, s))"

definition exponent_of :: "string \<Rightarrow> int" where
  "exponent_of s =
     (case s of
        [] \<Rightarrow> 0
      | c # cs \<Rightarrow>
          if c = CHR ''e'' \<or> c = CHR ''E'' then
            (let (neg, r) = strip_sign cs; ds = takeWhile isDigit r
             in if ds = [] then 0
                else if neg then - int (digits_val 0 ds) else int (digits_val 0 ds))
          else 0)"

definition scale10 :: "real \<Rightarrow> int \<Rightarrow> real" where
  "scale10 x e = (if 0 \<le> e then x * 10 ^ nat e else x / 10 ^ nat (- e))"

definition decimal_parseFloat :: "string \<Rightarrow> jsnum" where
  "decimal_parseFloat s =
     (let (neg, u) = strip_sign (dropWhile latin1_space s)
      in if take 8 u = ''Infinity'' then (if neg then NegInf else PosInf)
         else
           let ip = takeWhile isDigit u;
               r1 = dropWhile isDigit u;
               (fp, r2) = (case r1 of
                             [] \<Rightarrow> ([], r1)
                           | c # cs \<Rightarrow> if c = CHR ''.''
                                        then (takeWhile isDigit cs, dropWhile isDigit cs)
                                        else ([], r1))
           in if ip = [] \<and> fp = [] then NaN
              else
                let m = real (digits_val 0 ip) + real (digits_val 0 fp) / 10 ^ length fp;
                    v = scale10 m (exponent_of r2)
                in if 2 ^ 1024 - 2 ^ 970 \<le> v then (if neg then NegInf else PosInf)
                   else Fin (if neg then - v else v))"

fun decimal_digits :: "nat \<Rightarrow> string" where
  "decimal_digits n =
     (if n < 10 then [''0123456789'' ! n]
      else decimal_digits (n div 10) @ [''0123456789'' ! (n mod 10)])"

definition decimal_text :: "real \<Rightarrow> string" where
  "decimal_text x =
     (if x = of_int \<lfloor>x\<rfloor> then
        (if x < 0 then ''-'' @ decimal_digits (nat (- \<lfloor>x\<rfloor>)) else decimal_digits (nat \<lfloor>x\<rfloor>))
      else ''#'')"

definition sample_platform :: platform where
  "sample_platform =
     \<lparr>parseFloat = decimal_parseFloat, white_space = latin1_space, number_text = decimal_text\<rparr>"

subsection \<open>Stores, caches and replies\<close>

fun any_id :: "string \<Rightarrow> bool" where
  "any_id i = True"


definition no_seeds :: seeds where
  "no_seeds = Map.empty"

definition no_query :: rec_query where
  "no_query = \<lparr>q_seed_genres = None, q_seed_artists = None, q_seed_tracks = None,
     q_user_id = None, q_mood = None, q_energy_level = None, q_dance_level = None\<rparr>"

definition ada :: user where
  "ada = \<lparr>uid = ''u1'', name = Some ''Ada'', email = ''ada@example.org'',
     favoriteGenres = [''jazz'', ''soul'', ''funk'', ''blues''], savedTracks = [], playlists = [],
     preferences = Some \<lparr>energy = Fin 0.5, danceability = Fin 0.6, valence = Fin 0.4\<rparr>,
     createdAt = 0\<rparr>"

definition one_user :: store where
  "one_user = \<lparr>docs = [ada], online = True, castable = any_id\<rparr>"

definition offline_store :: store where
  "offline_store = \<lparr>docs = [ada], online = False, castable = any_id\<rparr>"

definition warm_cache :: token_cache where
  "warm_cache = \<lparr>accessToken = Some ''tok'', tokenExpiry = Some 5000\<rparr>"


definition demo_reply :: json where
  "demo_reply = JObject [(''tracks'', JObject [(''items'', JArray [JString ''t1'', JString ''t2''])])]"

fun demo_catalog :: "string \<Rightarrow> endpoint \<Rightarrow> api_reply" where
  "demo_catalog token endpoint = ApiReply 200 (Parsed demo_reply)"

definition demo_env :: env where
  "demo_env = \<lparr>now = 1000, auth_at = 1200,
     auth = AuthReply 200 (AuthJson (Some ''tok2'') (Some 3600)), api = demo_catalog\<rparr>"


definition lofi :: track where
  "lofi = \<lparr>trackId = Text ''t1'', track_name = Text ''Lofi'', artist = Unset, album = Unset,
     imageUrl = Unset, previewUrl = Unset, savedAt = 7\<rparr>"

definition lofi_body :: favorite_body where
  "lofi_body = \<lparr>b_trackId = Some (JString ''t1''), b_track_name = Some (JString ''Lofi again''),
     b_artist = None, b_album = None, b_imageUrl = None, b_previewUrl = None\<rparr>"

definition numeric_body :: favorite_body where
  "numeric_body = \<lparr>b_trackId = Some (JNumber 123), b_track_name = None,
     b_artist = None, b_album = None, b_imageUrl = None, b_previewUrl = None\<rparr>"

fun numbered :: "nat \<Rightarrow> track" where
  "numbered t = \<lparr>trackId = Text ''123'', track_name = Unset, artist = Unset, album = Unset,
     imageUrl = Unset, previewUrl = Unset, savedAt = t\<rparr>"

definition bob :: user where
  "bob = \<lparr>uid = ''u2'', name = Some ''Bob'', email = ''bob@example.org'',
     favoriteGenres = [], savedTracks = [lofi], playlists = [],
     preferences = Some \<lparr>energy = Fin 0.5, danceability = Fin 0.5, valence = Fin 0.5\<rparr>,
     createdAt = 0\<rparr>"

definition two_users :: store where
  "two_users = \<lparr>docs = [ada, bob], online = True, castable = any_id\<rparr>"

section \<open>Properties of the seed builder\<close>

text \<open>
  Claim C1. For each mood of the table, the mood step sets exactly the listed fields to
  the listed values and leaves every other field of the seeds as it was; for any other
  mood keyword, and when no mood is given, it changes nothing. The switch is the same
  in both server files.
\<close>

theorem mood_table:
  "apply_mood (Some ''happy'') s =
     s(''target_valence'' \<mapsto> JNum (Fin 0.8), ''target_energy'' \<mapsto> JNum (Fin 0.7))
   \<and> apply_mood (Some ''sad'') s =
     s(''target_valence'' \<mapsto> JNum (Fin 0.2), ''target_energy'' \<mapsto> JNum (Fin 0.3))
   \<and> apply_mood (Some ''energetic'') s =
     s(''target_energy'' \<mapsto> JNum (Fin 0.9), ''target_danceability'' \<mapsto> JNum (Fin 0.8))
   \<and> apply_mood (Some ''chill'') s =
     s(''target_energy'' \<mapsto> JNum (Fin 0.3), ''target_valence'' \<mapsto> JNum (Fin 0.5))
   \<and> apply_mood (Some ''focus'') s =
     s(''target_energy'' \<mapsto> JNum (Fin 0.4), ''target_valence'' \<mapsto> JNum (Fin 0.6),
       ''min_instrumentalness'' \<mapsto> JNum (Fin 0.3))
   \<and> (m \<notin> {''happy'', ''sad'', ''energetic'', ''chill'', ''focus''} \<longrightarrow> apply_mood (Some m) s = s)
   \<and> apply_mood None s = s"
  by (simp add: apply_mood_def mood_switch_def)

theorem mood_table_witness:
  "''party'' \<notin> {''happy'', ''sad'', ''energetic'', ''chill'', ''focus''}
   \<and> apply_mood (Some ''party'') [''seed_genres'' \<mapsto> JList [''jazz'']]
       = [''seed_genres'' \<mapsto> JList [''jazz'']]"
  using mood_table [of "[''seed_genres'' \<mapsto> JList [''jazz'']]" "''party''"] by simp

subsection \<open>Step lemmas\<close>

lemma arr_or_undef_truthy: "arr_or_undef v \<Longrightarrow> truthy v = (v \<noteq> None)"
  by (cases v rule: arr_or_undef.cases) simp_all

lemma basic_seeds_shape: "seed_key k \<Longrightarrow> arr_or_undef (basic_seeds q k)"
  by (auto simp: basic_seeds_def seed_key_def Let_def)

lemma mood_switch_seed_key: "seed_key k \<Longrightarrow> mood_switch m s k = s k"
  by (auto simp: mood_switch_def seed_key_def)

lemma apply_mood_seed_key: "seed_key k \<Longrightarrow> apply_mood m s k = s k"
  by (simp add: apply_mood_def mood_switch_seed_key)

lemma apply_overrides_seed_key: "seed_key k \<Longrightarrow> apply_overrides pl e d s k = s k"
  by (auto simp: apply_overrides_def seed_key_def Let_def)

lemma apply_overrides_apply:
  "apply_overrides pl e d s k =
     (if k = ''target_danceability'' \<and> given d then Some (JNum (parseFloat pl (the d)))
      else if k = ''target_energy'' \<and> given e then Some (JNum (parseFloat pl (the e)))
      else s k)"
  by (simp add: apply_overrides_def Let_def)

lemma apply_profile_shape: "seed_key k \<Longrightarrow> arr_or_undef (s k) \<Longrightarrow> arr_or_undef (apply_profile r s k)"
  by (auto simp: apply_profile_def seed_key_def Let_def split: sum.splits option.splits)

lemma personalize_shape: "seed_key k \<Longrightarrow> arr_or_undef (s k) \<Longrightarrow> arr_or_undef (personalize st u s k)"
  by (simp add: personalize_def apply_profile_shape)

lemma personalize_unresolved: "\<not> profile_resolved st u \<Longrightarrow> personalize st u s = s"
  by (auto simp: profile_resolved_def personalize_def apply_profile_def split: sum.splits option.splits)

lemma personalize_resolved:
  assumes "given user_id" "findById st (the user_id) = Inr (Some u)" "preferences u = Some p"
  shows "personalize st user_id s k =
     (if k = ''seed_genres'' \<and> favoriteGenres u \<noteq> [] then Some (JList (take 3 (favoriteGenres u)))
      else if k = ''target_valence'' then Some (JNum (valence p))
      else if k = ''target_danceability'' then Some (JNum (danceability p))
      else if k = ''target_energy'' then Some (JNum (energy p))
      else s k)"
  using assms by (simp add: personalize_def apply_profile_def Let_def)

lemma seeds_before_default_shape: "seed_key k \<Longrightarrow> arr_or_undef (seeds_before_default pl st q k)"
  unfolding seeds_before_default_def
  by (rule personalize_shape) (simp_all add: apply_overrides_seed_key apply_mood_seed_key basic_seeds_shape)

lemma default_genres_apply:
  "k \<noteq> ''seed_genres'' \<Longrightarrow> default_genres s k = s k"
  "k \<noteq> ''seed_genres'' \<Longrightarrow> default_genres_mock s k = s k"
  by (simp_all add: default_genres_def default_genres_mock_def)

lemma default_step:
  "build_seeds pl st q =
     (let pre = seeds_before_default pl st q
      in if pre ''seed_genres'' = None \<and> pre ''seed_artists'' = None \<and> pre ''seed_tracks'' = None
         then pre(''seed_genres'' \<mapsto> JList [''pop'', ''rock'', ''hip-hop''])
         else pre)"
proof -
  have "truthy (seeds_before_default pl st q k) = (seeds_before_default pl st q k \<noteq> None)" if "seed_key k" for k
    using that by (simp add: arr_or_undef_truthy seeds_before_default_shape)
  then show ?thesis
    by (simp add: build_seeds_def default_genres_def Let_def seed_key_def)
qed

lemma default_step_mock:
  "build_seeds_mock pl st q =
     (let pre = seeds_before_default pl st q
      in if pre ''seed_genres'' = None
         then pre(''seed_genres'' \<mapsto> JList [''pop'', ''rock'', ''hip-hop''])
         else pre)"
proof -
  have "truthy (seeds_before_default pl st q k) = (seeds_before_default pl st q k \<noteq> None)" if "seed_key k" for k
    using that by (simp add: arr_or_undef_truthy seeds_before_default_shape)
  then show ?thesis
    by (simp add: build_seeds_mock_def default_genres_mock_def Let_def seed_key_def)
qed

lemma parseFloat_tenth: "parseFloat sample_platform ''0.1'' = Fin 0.1"
  by (simp add: sample_platform_def decimal_parseFloat_def strip_sign_def latin1_space_def
      isDigit_def digit_of_def exponent_of_def scale10_def)

lemma happy_tenth:
  assumes "parseFloat pl ''0.1'' = Fin 0.1"
  shows "seeds_before_default pl st (no_query\<lparr>q_mood := Some ''happy'', q_energy_level := Some ''0.1''\<rparr>) =
     [''target_valence'' \<mapsto> JNum (Fin 0.8), ''target_energy'' \<mapsto> JNum (Fin 0.1)]"
  by (simp add: seeds_before_default_def personalize_def apply_overrides_def apply_mood_def
      mood_switch_def basic_seeds_def no_query_def assms)

lemma energetic_pre:
  "seeds_before_default pl st (no_query\<lparr>q_mood := Some ''energetic''\<rparr>) =
     [''target_energy'' \<mapsto> JNum (Fin 0.9), ''target_danceability'' \<mapsto> JNum (Fin 0.8)]"
  by (simp add: seeds_before_default_def personalize_def apply_overrides_def apply_mood_def
      mood_switch_def basic_seeds_def no_query_def)

lemma find_ada: "findById one_user ''u1'' = Inr (Some ada)"
  by (simp add: findById_def one_user_def ada_def)

lemma tracks_only_pre:
  "seeds_before_default pl st (no_query\<lparr>q_seed_tracks := Some ''t1''\<rparr>) = [''seed_tracks'' \<mapsto> JList [''t1'']]"
  by (simp add: seeds_before_default_def personalize_def apply_overrides_def apply_mood_def
      basic_seeds_def no_query_def split_comma_def)

lemma artists_only_pre:
  "seeds_before_default pl st (no_query\<lparr>q_seed_artists := Some ''a1''\<rparr>) = [''seed_artists'' \<mapsto> JList [''a1'']]"
  by (simp add: seeds_before_default_def personalize_def apply_overrides_def apply_mood_def
      basic_seeds_def no_query_def split_comma_def)


subsection \<open>Overrides after the mood\<close>

text \<open>
  Claim C2. When a mood is given and no profile is resolved, a given \<open>energy_level\<close>
  (a non-empty parameter, the handler's own test) makes \<open>target_energy\<close> the number
  the platform's \<open>parseFloat\<close> returns for it, whatever that function is, and likewise
  \<open>dance_level\<close> and \<open>target_danceability\<close>; every other field except the genre seed is
  what the mood step left. Both server files agree. In particular, on a platform whose
  \<open>parseFloat\<close> reads the text \<open>0.1\<close> as the number 0.1, \<open>mood=happy&energy_level=0.1\<close>
  gives \<open>target_valence\<close> 0.8 and \<open>target_energy\<close> 0.1.
\<close>

theorem overrides_beat_mood:
  assumes "given (q_mood q)" and "\<not> profile_resolved st (q_user_id q)"
  shows "(given (q_energy_level q) \<longrightarrow>
            build_seeds pl st q ''target_energy'' = Some (JNum (parseFloat pl (the (q_energy_level q))))
          \<and> build_seeds_mock pl st q ''target_energy'' = Some (JNum (parseFloat pl (the (q_energy_level q)))))
       \<and> (given (q_dance_level q) \<longrightarrow>
            build_seeds pl st q ''target_danceability'' = Some (JNum (parseFloat pl (the (q_dance_level q))))
          \<and> build_seeds_mock pl st q ''target_danceability'' = Some (JNum (parseFloat pl (the (q_dance_level q)))))
       \<and> (\<forall>k. k \<noteq> ''seed_genres''
              \<and> (given (q_energy_level q) \<longrightarrow> k \<noteq> ''target_energy'')
              \<and> (given (q_dance_level q) \<longrightarrow> k \<noteq> ''target_danceability'')
            \<longrightarrow> build_seeds pl st q k = mood_switch (the (q_mood q)) (basic_seeds q) k
              \<and> build_seeds_mock pl st q k = mood_switch (the (q_mood q)) (basic_seeds q) k)
       \<and> (parseFloat pl ''0.1'' = Fin 0.1 \<longrightarrow>
            build_seeds pl st' (no_query\<lparr>q_mood := Some ''happy'', q_energy_level := Some ''0.1''\<rparr>) =
              [''target_valence'' \<mapsto> JNum (Fin 0.8), ''target_energy'' \<mapsto> JNum (Fin 0.1),
               ''seed_genres'' \<mapsto> JList [''pop'', ''rock'', ''hip-hop'']])"
proof -
  have pre: "seeds_before_default pl st q =
      apply_overrides pl (q_energy_level q) (q_dance_level q) (mood_switch (the (q_mood q)) (basic_seeds q))"
    using assms by (simp add: seeds_before_default_def personalize_unresolved apply_mood_def)
  have ex: "build_seeds pl st' (no_query\<lparr>q_mood := Some ''happy'', q_energy_level := Some ''0.1''\<rparr>) =
           [''target_valence'' \<mapsto> JNum (Fin 0.8), ''target_energy'' \<mapsto> JNum (Fin 0.1),
            ''seed_genres'' \<mapsto> JList [''pop'', ''rock'', ''hip-hop'']]"
    if "parseFloat pl ''0.1'' = Fin 0.1"
    by (simp add: build_seeds_def happy_tenth [OF that] default_genres_def)
  have gen: "build_seeds pl st q k = mood_switch (the (q_mood q)) (basic_seeds q) k
      \<and> build_seeds_mock pl st q k = mood_switch (the (q_mood q)) (basic_seeds q) k"
    if "k \<noteq> ''seed_genres''" "given (q_energy_level q) \<longrightarrow> k \<noteq> ''target_energy''"
      "given (q_dance_level q) \<longrightarrow> k \<noteq> ''target_danceability''" for k
    using that
    by (auto simp: build_seeds_def build_seeds_mock_def default_genres_apply pre apply_overrides_apply)
  have en: "build_seeds pl st q ''target_energy'' = Some (JNum (parseFloat pl (the (q_energy_level q))))
      \<and> build_seeds_mock pl st q ''target_energy'' = Some (JNum (parseFloat pl (the (q_energy_level q))))"
    if "given (q_energy_level q)"
    using that
    by (simp add: build_seeds_def build_seeds_mock_def default_genres_apply pre apply_overrides_apply)
  have da: "build_seeds pl st q ''target_danceability'' = Some (JNum (parseFloat pl (the (q_dance_level q))))
      \<and> build_seeds_mock pl st q ''target_danceability'' = Some (JNum (parseFloat pl (the (q_dance_level q))))"
    if "given (q_dance_level q)"
    using that
    by (simp add: build_seeds_def build_seeds_mock_def default_genres_apply pre apply_overrides_apply)
  show ?thesis
    using ex gen en da by blast
qed

theorem overrides_beat_mood_witness:
  "given (Some ''happy'') \<and> \<not> profile_resolved one_user None
   \<and> build_seeds sample_platform one_user (no_query\<lparr>q_mood := Some ''happy'', q_energy_level := Some ''0.1''\<rparr>) ''target_energy''
       = Some (JNum (Fin 0.1))
   \<and> build_seeds sample_platform one_user (no_query\<lparr>q_mood := Some ''happy'', q_energy_level := Some ''0.1''\<rparr>) ''target_valence''
       = Some (JNum (Fin 0.8))"
proof -
  let ?q = "no_query\<lparr>q_mood := Some ''happy'', q_energy_level := Some ''0.1''\<rparr>"
  have h: "given (q_mood ?q)" "\<not> profile_resolved one_user (q_user_id ?q)"
    "parseFloat sample_platform ''0.1'' = Fin 0.1"
    by (simp_all add: no_query_def profile_resolved_def parseFloat_tenth)
  from overrides_beat_mood [where q = ?q and st = one_user and st' = one_user
      and pl = sample_platform, OF h(1,2)] h(3)
  have "build_seeds sample_platform one_user ?q =
      [''target_valence'' \<mapsto> JNum (Fin 0.8), ''target_energy'' \<mapsto> JNum (Fin 0.1),
       ''seed_genres'' \<mapsto> JList [''pop'', ''rock'', ''hip-hop'']]"
    by blast
  then show ?thesis
    using h by (simp add: no_query_def)
qed


subsection \<open>The profile step\<close>

text \<open>
  Claim C3, as amended. When the lookup resolves a profile with preferences, the three
  targets are the profile's stored values, whatever the mood and the overrides set.
  With a non-empty list of favorite genres, \<open>seed_genres\<close> becomes its first three
  entries at most, replacing a genre seed of the request. The request's \<open>seed_artists\<close>
  and \<open>seed_tracks\<close> stay in the seeds; the first variant of \<open>getRecommendations\<close> then
  serializes the genre seed only.
\<close>

theorem profile_overwrites_targets:
  assumes "given (q_user_id q)"
    and "findById st (the (q_user_id q)) = Inr (Some u)"
    and "preferences u = Some p"
  shows "build_seeds pl st q ''target_energy'' = Some (JNum (energy p))
       \<and> build_seeds pl st q ''target_danceability'' = Some (JNum (danceability p))
       \<and> build_seeds pl st q ''target_valence'' = Some (JNum (valence p))
       \<and> build_seeds_mock pl st q ''target_energy'' = Some (JNum (energy p))
       \<and> build_seeds_mock pl st q ''target_danceability'' = Some (JNum (danceability p))
       \<and> build_seeds_mock pl st q ''target_valence'' = Some (JNum (valence p))
       \<and> (favoriteGenres u \<noteq> [] \<longrightarrow>
            build_seeds pl st q ''seed_genres'' = Some (JList (take 3 (favoriteGenres u)))
          \<and> build_seeds_mock pl st q ''seed_genres'' = Some (JList (take 3 (favoriteGenres u)))
          \<and> length (take 3 (favoriteGenres u)) \<le> 3
          \<and> seed_params (build_seeds pl st q) = [(''seed_genres'', JStr (join_comma (take 3 (favoriteGenres u))))])
       \<and> build_seeds pl st q ''seed_artists'' = basic_seeds q ''seed_artists''
       \<and> build_seeds pl st q ''seed_tracks'' = basic_seeds q ''seed_tracks''
       \<and> build_seeds_mock pl st q ''seed_artists'' = basic_seeds q ''seed_artists''
       \<and> build_seeds_mock pl st q ''seed_tracks'' = basic_seeds q ''seed_tracks''"
proof -
  let ?s = "apply_overrides pl (q_energy_level q) (q_dance_level q) (apply_mood (q_mood q) (basic_seeds q))"
  have pre: "seeds_before_default pl st q k =
     (if k = ''seed_genres'' \<and> favoriteGenres u \<noteq> [] then Some (JList (take 3 (favoriteGenres u)))
      else if k = ''target_valence'' then Some (JNum (valence p))
      else if k = ''target_danceability'' then Some (JNum (danceability p))
      else if k = ''target_energy'' then Some (JNum (energy p))
      else ?s k)" for k
    unfolding seeds_before_default_def by (rule personalize_resolved [OF assms])
  have keep: "?s k = basic_seeds q k" if "seed_key k" for k
    using that by (simp add: apply_overrides_seed_key apply_mood_seed_key)
  have targets: "build_seeds pl st q k = seeds_before_default pl st q k"
    "build_seeds_mock pl st q k = seeds_before_default pl st q k" if "k \<noteq> ''seed_genres''" for k
    using that by (simp_all add: build_seeds_def build_seeds_mock_def default_genres_apply)
  have genres: "build_seeds pl st q ''seed_genres'' = Some (JList (take 3 (favoriteGenres u)))"
    "build_seeds_mock pl st q ''seed_genres'' = Some (JList (take 3 (favoriteGenres u)))"
    if "favoriteGenres u \<noteq> []"
    using that by (simp_all add: build_seeds_def build_seeds_mock_def default_genres_def
        default_genres_mock_def pre)
  have sp: "seed_params (build_seeds pl st q) = [(''seed_genres'', JStr (join_comma (take 3 (favoriteGenres u))))]"
    if "favoriteGenres u \<noteq> []"
    using genres(1) [OF that] by (simp add: seed_params_def)
  show ?thesis
    using genres sp by (simp add: targets pre keep seed_key_def)
qed


theorem profile_overwrites_targets_witness:
  "given (Some ''u1'') \<and> findById one_user ''u1'' = Inr (Some ada)
   \<and> favoriteGenres ada \<noteq> []
   \<and> build_seeds sample_platform one_user (no_query\<lparr>q_mood := Some ''happy'', q_seed_tracks := Some ''t1,t2'', q_user_id := Some ''u1''\<rparr>) ''target_valence''
       = Some (JNum (Fin 0.4))
   \<and> build_seeds sample_platform one_user (no_query\<lparr>q_mood := Some ''happy'', q_seed_tracks := Some ''t1,t2'', q_user_id := Some ''u1''\<rparr>) ''seed_genres''
       = Some (JList [''jazz'', ''soul'', ''funk''])
   \<and> build_seeds sample_platform one_user (no_query\<lparr>q_mood := Some ''happy'', q_seed_tracks := Some ''t1,t2'', q_user_id := Some ''u1''\<rparr>) ''seed_tracks''
       = Some (JList [''t1'', ''t2''])"
proof -
  have a: "preferences ada = Some \<lparr>energy = Fin 0.5, danceability = Fin 0.6, valence = Fin 0.4\<rparr>"
    and g: "favoriteGenres ada = [''jazz'', ''soul'', ''funk'', ''blues'']"
    by (simp_all add: ada_def)
  show ?thesis
    using profile_overwrites_targets [where pl = sample_platform and st = one_user and u = ada
        and q = "no_query\<lparr>q_mood := Some ''happy'', q_seed_tracks := Some ''t1,t2'', q_user_id := Some ''u1''\<rparr>"
        and p = "\<lparr>energy = Fin 0.5, danceability = Fin 0.6, valence = Fin 0.4\<rparr>"]
    by (simp add: find_ada a g no_query_def basic_seeds_def split_comma_def)
qed

text \<open>
  The claim as first stated has the profile step discard any seed of the request. An
  artist seed of the request survives it.
\<close>

theorem profile_keeps_artist_seed:
  "given (Some ''u1'') \<and> findById one_user ''u1'' = Inr (Some ada)
   \<and> preferences ada \<noteq> None \<and> favoriteGenres ada \<noteq> []
   \<and> build_seeds sample_platform one_user (no_query\<lparr>q_seed_artists := Some ''a1'', q_user_id := Some ''u1''\<rparr>) ''seed_artists''
       = Some (JList [''a1''])
   \<and> build_seeds sample_platform one_user (no_query\<lparr>q_seed_artists := Some ''a1'', q_user_id := Some ''u1''\<rparr>) ''seed_genres''
       = Some (JList [''jazz'', ''soul'', ''funk''])"
proof -
  have a: "preferences ada = Some \<lparr>energy = Fin 0.5, danceability = Fin 0.6, valence = Fin 0.4\<rparr>"
    and g: "favoriteGenres ada = [''jazz'', ''soul'', ''funk'', ''blues'']"
    by (simp_all add: ada_def)
  have "seeds_before_default sample_platform one_user (no_query\<lparr>q_seed_artists := Some ''a1'', q_user_id := Some ''u1''\<rparr>) k =
     (if k = ''seed_genres'' then Some (JList [''jazz'', ''soul'', ''funk''])
      else if k = ''target_valence'' then Some (JNum (Fin 0.4))
      else if k = ''target_danceability'' then Some (JNum (Fin 0.6))
      else if k = ''target_energy'' then Some (JNum (Fin 0.5))
      else if k = ''seed_artists'' then Some (JList [''a1'']) else None)" for k
    by (simp add: seeds_before_default_def personalize_def find_ada apply_profile_def a g
        apply_overrides_def apply_mood_def basic_seeds_def no_query_def split_comma_def)
  then show ?thesis
    by (simp add: find_ada a g build_seeds_def default_genres_def)
qed


subsection \<open>The default seed\<close>

text \<open>
  Claim C4, as amended. In \<open>src/server.js\<close> the default genres are applied exactly when,
  after the mood, override and profile steps, none of \<open>seed_genres\<close>, \<open>seed_artists\<close>,
  \<open>seed_tracks\<close> is set. In the server file with the mock-data fallback they are applied
  exactly when \<open>seed_genres\<close> is not set, whatever the other two are. In both,
  \<open>mood=energetic\<close> with no user id gives \<open>target_energy\<close> 0.9, \<open>target_danceability\<close> 0.8
  and the default genres.
\<close>

theorem default_seed_rule:
  "build_seeds pl st q =
     (let pre = seeds_before_default pl st q
      in if pre ''seed_genres'' = None \<and> pre ''seed_artists'' = None \<and> pre ''seed_tracks'' = None
         then pre(''seed_genres'' \<mapsto> JList [''pop'', ''rock'', ''hip-hop''])
         else pre)
   \<and> build_seeds_mock pl st q =
     (let pre = seeds_before_default pl st q
      in if pre ''seed_genres'' = None
         then pre(''seed_genres'' \<mapsto> JList [''pop'', ''rock'', ''hip-hop''])
         else pre)
   \<and> build_seeds pl st (no_query\<lparr>q_mood := Some ''energetic''\<rparr>) =
       [''target_energy'' \<mapsto> JNum (Fin 0.9), ''target_danceability'' \<mapsto> JNum (Fin 0.8),
        ''seed_genres'' \<mapsto> JList [''pop'', ''rock'', ''hip-hop'']]
   \<and> build_seeds_mock pl st (no_query\<lparr>q_mood := Some ''energetic''\<rparr>) =
       [''target_energy'' \<mapsto> JNum (Fin 0.9), ''target_danceability'' \<mapsto> JNum (Fin 0.8),
        ''seed_genres'' \<mapsto> JList [''pop'', ''rock'', ''hip-hop'']]"
proof -
  have "build_seeds pl st (no_query\<lparr>q_mood := Some ''energetic''\<rparr>) =
       [''target_energy'' \<mapsto> JNum (Fin 0.9), ''target_danceability'' \<mapsto> JNum (Fin 0.8),
        ''seed_genres'' \<mapsto> JList [''pop'', ''rock'', ''hip-hop'']]"
    by (simp add: build_seeds_def energetic_pre default_genres_def)
  moreover have "build_seeds_mock pl st (no_query\<lparr>q_mood := Some ''energetic''\<rparr>) =
       [''target_energy'' \<mapsto> JNum (Fin 0.9), ''target_danceability'' \<mapsto> JNum (Fin 0.8),
        ''seed_genres'' \<mapsto> JList [''pop'', ''rock'', ''hip-hop'']]"
    by (simp add: build_seeds_mock_def energetic_pre default_genres_mock_def)
  ultimately show ?thesis
    using default_step [of pl st q] default_step_mock [of pl st q] by simp
qed


theorem default_seed_rule_witness:
  "build_seeds sample_platform one_user (no_query\<lparr>q_seed_tracks := Some ''t1''\<rparr>) = [''seed_tracks'' \<mapsto> JList [''t1'']]
   \<and> build_seeds_mock sample_platform one_user (no_query\<lparr>q_seed_tracks := Some ''t1''\<rparr>) =
       [''seed_tracks'' \<mapsto> JList [''t1''], ''seed_genres'' \<mapsto> JList [''pop'', ''rock'', ''hip-hop'']]"
  using default_seed_rule [of sample_platform one_user "no_query\<lparr>q_seed_tracks := Some ''t1''\<rparr>"]
  by (simp add: tracks_only_pre)


text \<open>
  The claim as first stated has the default depend on all three seeds in every handler.
  In the server file with the mock-data fallback, a request with an artist seed and no
  genre seed still gets the default genres.
\<close>

theorem mock_default_despite_artists:
  "seeds_before_default sample_platform one_user (no_query\<lparr>q_seed_artists := Some ''a1''\<rparr>) ''seed_artists''
     = Some (JList [''a1''])
   \<and> build_seeds_mock sample_platform one_user (no_query\<lparr>q_seed_artists := Some ''a1''\<rparr>) ''seed_genres''
     = Some (JList [''pop'', ''rock'', ''hip-hop''])
   \<and> build_seeds sample_platform one_user (no_query\<lparr>q_seed_artists := Some ''a1''\<rparr>) ''seed_genres'' = None"
  by (simp add: build_seeds_mock_def build_seeds_def default_genres_mock_def default_genres_def
      artists_only_pre)

section \<open>Properties of the catalog client\<close>

subsection \<open>Parameter lists\<close>

lemma append_defined_eq: "append_defined s k ps = ps @ defined_param s k"
  by (simp add: append_defined_def defined_param_def split: option.splits)

lemma feature_params_eq:
  "feature_params s ps =
     ps @ concat (map (defined_param s) feature_keys) @ [(''limit'', JStr ''20''), (''market'', JStr ''US'')]"
  by (simp add: feature_params_def append_defined_eq feature_keys_def)

lemma defined_param_mem: "p \<in> set (defined_param s k) \<Longrightarrow> fst p = k \<and> s k = Some (snd p)"
  by (auto simp: defined_param_def split: option.splits)

lemma defined_params_keys: "p \<in> set (concat (map (defined_param s) ks)) \<Longrightarrow> fst p \<in> set ks"
  by (induction ks) (auto dest: defined_param_mem)

lemma map_of_defined_params:
  "distinct ks \<Longrightarrow> map_of (concat (map (defined_param s) ks)) k = (if k \<in> set ks then s k else None)"
proof (induction ks)
  case Nil
  then show ?case by simp
next
  case (Cons a ks)
  have "map_of (defined_param s a) k = (if k = a then s a else None)"
    by (simp add: defined_param_def split: option.splits)
  with Cons show ?case
    by (auto simp: map_add_def split: option.splits)
qed

lemma no_seed_in_defined_params:
  "\<forall>k \<in> set ks. \<not> seed_key k \<Longrightarrow> filter (\<lambda>p. seed_key (fst p)) (concat (map (defined_param s) ks)) = []"
  by (induction ks) (auto simp: defined_param_def split: option.splits)

lemma feature_keys_facts:
  "distinct feature_keys" "\<forall>k \<in> set feature_keys. \<not> seed_key k"
  "''limit'' \<notin> set feature_keys" "''market'' \<notin> set feature_keys"
  "''min_instrumentalness'' \<notin> set feature_keys"
  by (simp_all add: feature_keys_def seed_key_def)

lemma seed_params_one: "length (seed_params s) = 1" "\<forall>p \<in> set (seed_params s). seed_key (fst p)"
  by (simp_all add: seed_params_def seed_key_def)

lemma distinct_defined_params:
  "distinct ks \<Longrightarrow> distinct (map fst (concat (map (defined_param s) ks)))"
proof (induction ks)
  case Nil
  then show ?case by simp
next
  case (Cons a ks)
  have "distinct (map fst (defined_param s a))"
    by (simp add: defined_param_def split: option.splits)
  moreover have "fst ` set (defined_param s a) \<inter> fst ` set (concat (map (defined_param s) ks)) = {}"
    using Cons.prems defined_params_keys [of _ s ks] by (auto dest!: defined_param_mem)
  ultimately show ?case
    using Cons by simp
qed

lemma seed_params_v2_keys: "p \<in> set (seed_params_v2 s) \<Longrightarrow> seed_key (fst p)"
  by (auto simp: seed_params_v2_def seed_key_def Let_def split: if_splits)

lemma distinct_seed_params_v2: "distinct (map fst (seed_params_v2 s))"
  by (simp add: seed_params_v2_def Let_def)

lemma distinct_three:
  "distinct (map fst a) \<Longrightarrow> distinct (map fst b) \<Longrightarrow> fst ` set a \<subseteq> A \<Longrightarrow> fst ` set b \<subseteq> B
   \<Longrightarrow> A \<inter> B = {} \<Longrightarrow> x \<notin> A \<union> B \<Longrightarrow> y \<notin> A \<union> B \<Longrightarrow> x \<noteq> y
   \<Longrightarrow> distinct (map fst (a @ b @ [(x, u), (y, v)]))"
  by auto

lemma params_shape:
  assumes "\<forall>p \<in> set sp. seed_key (fst p)" and "distinct (map fst sp)"
    and "ps = sp @ concat (map (defined_param s) feature_keys) @ [(''limit'', JStr ''20''), (''market'', JStr ''US'')]"
  shows "filter (\<lambda>p. seed_key (fst p)) ps = sp"
    and "\<forall>k \<in> set feature_keys. map_of ps k = s k"
    and "map_of ps ''limit'' = Some (JStr ''20'')"
    and "map_of ps ''market'' = Some (JStr ''US'')"
    and "\<forall>p \<in> set ps. seed_key (fst p) \<or> fst p \<in> set feature_keys \<or> fst p = ''limit'' \<or> fst p = ''market''"
    and "''min_instrumentalness'' \<notin> fst ` set ps"
    and "distinct (map fst ps)"
proof -
  let ?fp = "concat (map (defined_param s) feature_keys)"
  have sp_none: "map_of sp k = None" if "\<not> seed_key k" for k
    using assms(1) that by (metis fst_conv map_of_SomeD not_None_eq)
  have fp: "map_of ?fp k = (if k \<in> set feature_keys then s k else None)" for k
    by (rule map_of_defined_params) (rule feature_keys_facts)
  have fk: "fst p \<in> set feature_keys" if "p \<in> set ?fp" for p
    using that by (rule defined_params_keys)
  have nk: "\<not> seed_key ''limit''" "\<not> seed_key ''market''" "\<not> seed_key ''min_instrumentalness''"
    by (simp_all add: seed_key_def)
  show "filter (\<lambda>p. seed_key (fst p)) ps = sp"
    using assms(1) by (simp add: assms(3) no_seed_in_defined_params feature_keys_facts nk filter_id_conv)
  show "\<forall>k \<in> set feature_keys. map_of ps k = s k"
  proof
    fix k assume k: "k \<in> set feature_keys"
    then have "k \<noteq> ''limit''" "k \<noteq> ''market''" "\<not> seed_key k"
      using feature_keys_facts(2,3,4) by auto
    then show "map_of ps k = s k"
      using k by (simp add: assms(3) map_add_def fp sp_none split: option.splits)
  qed
  show "map_of ps ''limit'' = Some (JStr ''20'')"
    using feature_keys_facts(3) by (simp add: assms(3) map_add_def fp sp_none nk)
  show "map_of ps ''market'' = Some (JStr ''US'')"
    using feature_keys_facts(4) by (simp add: assms(3) map_add_def fp sp_none nk)
  show "\<forall>p \<in> set ps. seed_key (fst p) \<or> fst p \<in> set feature_keys \<or> fst p = ''limit'' \<or> fst p = ''market''"
    using assms(1) fk by (auto simp: assms(3))
  then show "''min_instrumentalness'' \<notin> fst ` set ps"
    using feature_keys_facts(5) nk(3) by auto
  have k1: "fst ` set sp \<subseteq> Collect seed_key" and k2: "fst ` set ?fp \<subseteq> set feature_keys"
    using assms(1) fk by auto
  have k3: "Collect seed_key \<inter> set feature_keys = {}"
    and k4: "''limit'' \<notin> Collect seed_key \<union> set feature_keys"
    and k5: "''market'' \<notin> Collect seed_key \<union> set feature_keys"
    using feature_keys_facts(2,3,4) nk by auto
  have k6: "''limit'' \<noteq> ''market''" by simp
  show "distinct (map fst ps)"
    unfolding assms(3)
    by (rule distinct_three [OF assms(2) distinct_defined_params [OF feature_keys_facts(1)] k1 k2 k3 k4 k5 k6])
qed

lemma makeSpotifyRequest_endpoints:
  "set (endpoints_of (requests_of (makeSpotifyRequest w c e))) \<subseteq> {e}"
  by (auto simp: makeSpotifyRequest_def getAccessToken_def requests_of_def Let_def
      split: sum.splits prod.splits auth_reply.splits auth_body.splits api_reply.splits api_body.splits if_splits)

text \<open>
  Claim C5, as amended. The first variant of \<open>getRecommendations\<close> requests
  \<open>/v1/recommendations\<close> with exactly these parameters: one seed parameter (the genre
  seed if set, else the artist seed, else the track seed, else the default genres; an
  array comma-joined), then each of the twelve \<open>target_\<close>, \<open>min_\<close>, \<open>max_\<close> fields that is
  defined, with its value, then \<open>limit=20\<close> and \<open>market=US\<close>. No other property of the
  seeds is sent: not \<open>min_instrumentalness\<close>, and not a caller's \<open>limit\<close>. The second
  variant sends the same list except for the seeds: a genre seed always (the default
  when none is set), and in addition the artist seed and the track seed when set.
\<close>

theorem recommendation_request:
  "recommendation_params s =
     seed_params s @ concat (map (defined_param s) feature_keys)
       @ [(''limit'', JStr ''20''), (''market'', JStr ''US'')]
   \<and> filter (\<lambda>p. seed_key (fst p)) (recommendation_params s) =
       (if truthy (s ''seed_genres'') then [(''seed_genres'', joined (the (s ''seed_genres'')))]
        else if truthy (s ''seed_artists'') then [(''seed_artists'', joined (the (s ''seed_artists'')))]
        else if truthy (s ''seed_tracks'') then [(''seed_tracks'', joined (the (s ''seed_tracks'')))]
        else [(''seed_genres'', JStr ''pop,rock,hip-hop'')])
   \<and> (\<forall>k \<in> set feature_keys. map_of (recommendation_params s) k = s k)
   \<and> map_of (recommendation_params s) ''limit'' = Some (JStr ''20'')
   \<and> map_of (recommendation_params s) ''market'' = Some (JStr ''US'')
   \<and> (\<forall>p \<in> set (recommendation_params s).
         seed_key (fst p) \<or> fst p \<in> set feature_keys \<or> fst p = ''limit'' \<or> fst p = ''market'')
   \<and> ''min_instrumentalness'' \<notin> fst ` set (recommendation_params s)
   \<and> distinct (map fst (recommendation_params s))
   \<and> set (endpoints_of (requests_of (getRecommendations w c s)))
       \<subseteq> {(''/v1/recommendations'', recommendation_params s)}
   \<and> filter (\<lambda>p. seed_key (fst p)) (recommendation_params_v2 s) =
       [(''seed_genres'', if truthy (s ''seed_genres'') then joined (the (s ''seed_genres''))
                          else JStr ''pop,rock,hip-hop'')]
       @ (if truthy (s ''seed_artists'') then [(''seed_artists'', joined (the (s ''seed_artists'')))] else [])
       @ (if truthy (s ''seed_tracks'') then [(''seed_tracks'', joined (the (s ''seed_tracks'')))] else [])
   \<and> (\<forall>k \<in> set feature_keys. map_of (recommendation_params_v2 s) k = s k)
   \<and> map_of (recommendation_params_v2 s) ''limit'' = Some (JStr ''20'')
   \<and> map_of (recommendation_params_v2 s) ''market'' = Some (JStr ''US'')
   \<and> (\<forall>p \<in> set (recommendation_params_v2 s).
         seed_key (fst p) \<or> fst p \<in> set feature_keys \<or> fst p = ''limit'' \<or> fst p = ''market'')
   \<and> ''min_instrumentalness'' \<notin> fst ` set (recommendation_params_v2 s)
   \<and> distinct (map fst (recommendation_params_v2 s))
   \<and> set (endpoints_of (requests_of (getRecommendations_v2 w c s)))
       \<subseteq> {(''/v1/recommendations'', recommendation_params_v2 s)}"
proof -
  have eq1: "recommendation_params s =
     seed_params s @ concat (map (defined_param s) feature_keys)
       @ [(''limit'', JStr ''20''), (''market'', JStr ''US'')]"
    by (simp add: recommendation_params_def feature_params_eq)
  have eq2: "recommendation_params_v2 s =
     seed_params_v2 s @ concat (map (defined_param s) feature_keys)
       @ [(''limit'', JStr ''20''), (''market'', JStr ''US'')]"
    by (simp add: recommendation_params_v2_def feature_params_eq)
  have d1: "distinct (map fst (seed_params s))"
    by (simp add: seed_params_def)
  note v1 = params_shape [OF seed_params_one(2) d1 eq1]
  have k2: "\<forall>p \<in> set (seed_params_v2 s). seed_key (fst p)"
    using seed_params_v2_keys by blast
  note v2 = params_shape [OF k2 distinct_seed_params_v2 eq2]
  have r1: "set (endpoints_of (requests_of (getRecommendations w c s)))
       \<subseteq> {(''/v1/recommendations'', recommendation_params s)}"
    using makeSpotifyRequest_endpoints [of w c "(''/v1/recommendations'', recommendation_params s)"]
    by (auto simp: getRecommendations_def requests_of_def split: prod.splits sum.splits if_splits)
  have r2: "set (endpoints_of (requests_of (getRecommendations_v2 w c s)))
       \<subseteq> {(''/v1/recommendations'', recommendation_params_v2 s)}"
    using makeSpotifyRequest_endpoints [of w c "(''/v1/recommendations'', recommendation_params_v2 s)"]
    by (auto simp: getRecommendations_v2_def requests_of_def split: prod.splits sum.splits if_splits)
  have f1: "filter (\<lambda>p. seed_key (fst p)) (recommendation_params s) =
       (if truthy (s ''seed_genres'') then [(''seed_genres'', joined (the (s ''seed_genres'')))]
        else if truthy (s ''seed_artists'') then [(''seed_artists'', joined (the (s ''seed_artists'')))]
        else if truthy (s ''seed_tracks'') then [(''seed_tracks'', joined (the (s ''seed_tracks'')))]
        else [(''seed_genres'', JStr ''pop,rock,hip-hop'')])"
    unfolding v1(1) by (simp add: seed_params_def)
  have f2: "filter (\<lambda>p. seed_key (fst p)) (recommendation_params_v2 s) =
       [(''seed_genres'', if truthy (s ''seed_genres'') then joined (the (s ''seed_genres''))
                          else JStr ''pop,rock,hip-hop'')]
       @ (if truthy (s ''seed_artists'') then [(''seed_artists'', joined (the (s ''seed_artists'')))] else [])
       @ (if truthy (s ''seed_tracks'') then [(''seed_tracks'', joined (the (s ''seed_tracks'')))] else [])"
    unfolding v2(1) by (simp add: seed_params_v2_def Let_def)
  show ?thesis
    using eq1 f1 v1(2-7) r1 f2 v2(2-7) r2 by blast
qed

theorem recommendation_request_witness:
  "filter (\<lambda>p. seed_key (fst p))
     (recommendation_params [''seed_tracks'' \<mapsto> JList [''t1'', ''t2''], ''seed_artists'' \<mapsto> JList [''a1''],
        ''min_instrumentalness'' \<mapsto> JNum (Fin 0.3), ''limit'' \<mapsto> JNum (Fin 50)])
     = [(''seed_artists'', JStr ''a1'')]
   \<and> map_of (recommendation_params [''seed_tracks'' \<mapsto> JList [''t1'', ''t2''], ''seed_artists'' \<mapsto> JList [''a1''],
        ''min_instrumentalness'' \<mapsto> JNum (Fin 0.3), ''limit'' \<mapsto> JNum (Fin 50)]) ''limit''
     = Some (JStr ''20'')
   \<and> ''target_energy'' \<in> set feature_keys
   \<and> map_of (recommendation_params [''seed_tracks'' \<mapsto> JList [''t1'', ''t2''], ''seed_artists'' \<mapsto> JList [''a1''],
        ''min_instrumentalness'' \<mapsto> JNum (Fin 0.3), ''limit'' \<mapsto> JNum (Fin 50)]) ''target_energy''
     = None"
proof -
  let ?s = "[''seed_tracks'' \<mapsto> JList [''t1'', ''t2''], ''seed_artists'' \<mapsto> JList [''a1''],
        ''min_instrumentalness'' \<mapsto> JNum (Fin 0.3), ''limit'' \<mapsto> JNum (Fin 50)]"
  have k: "''target_energy'' \<in> set feature_keys"
    by (simp add: feature_keys_def)
  from recommendation_request [of ?s demo_env warm_cache]
  have f: "filter (\<lambda>p. seed_key (fst p)) (recommendation_params ?s) =
       (if truthy (?s ''seed_genres'') then [(''seed_genres'', joined (the (?s ''seed_genres'')))]
        else if truthy (?s ''seed_artists'') then [(''seed_artists'', joined (the (?s ''seed_artists'')))]
        else if truthy (?s ''seed_tracks'') then [(''seed_tracks'', joined (the (?s ''seed_tracks'')))]
        else [(''seed_genres'', JStr ''pop,rock,hip-hop'')])"
    and l: "map_of (recommendation_params ?s) ''limit'' = Some (JStr ''20'')"
    and m: "\<forall>k \<in> set feature_keys. map_of (recommendation_params ?s) k = ?s k"
    by blast+
  have "map_of (recommendation_params ?s) ''target_energy'' = ?s ''target_energy''"
    using m k by blast
  then show ?thesis
    using f l k by simp
qed

text \<open>
  The claim as first stated has exactly one seed kind in every request. The second
  variant sends two kinds for seeds that hold an artist seed only.
\<close>

theorem second_variant_sends_two_seed_kinds:
  "recommendation_params_v2 (no_seeds(''seed_artists'' \<mapsto> JList [''a1''])) =
     [(''seed_genres'', JStr ''pop,rock,hip-hop''), (''seed_artists'', JStr ''a1''),
      (''limit'', JStr ''20''), (''market'', JStr ''US'')]
   \<and> recommendation_params_v2 (build_seeds_mock sample_platform one_user (no_query\<lparr>q_seed_artists := Some ''a1''\<rparr>)) =
     [(''seed_genres'', JStr ''pop,rock,hip-hop''), (''seed_artists'', JStr ''a1''),
      (''limit'', JStr ''20''), (''market'', JStr ''US'')]"
proof -
  have "build_seeds_mock sample_platform one_user (no_query\<lparr>q_seed_artists := Some ''a1''\<rparr>) =
      [''seed_artists'' \<mapsto> JList [''a1''], ''seed_genres'' \<mapsto> JList [''pop'', ''rock'', ''hip-hop'']]"
    by (simp add: build_seeds_mock_def default_genres_mock_def artists_only_pre)
  then show ?thesis
    by (simp add: recommendation_params_v2_def seed_params_v2_def feature_params_def
        append_defined_def no_seeds_def)
qed

subsection \<open>Search\<close>






lemma demo_request:
  "makeSpotifyRequest demo_env warm_cache e = (Inr demo_reply, warm_cache, [ApiRequest ''tok'' e])"
  by (simp add: makeSpotifyRequest_def getAccessToken_def cache_valid_def demo_env_def warm_cache_def)






subsection \<open>The token cache\<close>




section \<open>Properties of the handlers\<close>

subsection \<open>The store\<close>

lemma find_uid_map:
  assumes "\<And>d. uid (f d) = uid d"
  shows "find (\<lambda>d. uid d = i) (map f ds) = map_option f (find (\<lambda>d. uid d = i) ds)"
  by (induction ds) (simp_all add: assms)

lemma find_uid: "find (\<lambda>d. uid d = i) ds = Some u \<Longrightarrow> uid u = i \<and> u \<in> set ds"
  by (induction ds) (auto split: if_splits)

lemma findById_found:
  assumes "findById st i = Inr (Some u)"
  shows "online st" "castable st i" "find (\<lambda>d. uid d = i) (docs st) = Some u" "uid u = i" "u \<in> set (docs st)"
proof -
  show "online st" "castable st i" "find (\<lambda>d. uid d = i) (docs st) = Some u"
    using assms by (auto simp: findById_def split: if_splits)
  then show "uid u = i" "u \<in> set (docs st)"
    using find_uid by blast+
qed

lemma save_docs:
  "online st \<Longrightarrow> save st u = Inr (st\<lparr>docs := map (\<lambda>d. if uid d = uid u then u else d) (docs st)\<rparr>)"
  by (simp add: save_def)

lemma save_same:
  assumes "findById st i = Inr (Some u)"
  shows "findById (st\<lparr>docs := map (\<lambda>d. if uid d = uid u then u else d) (docs st)\<rparr>) j = findById st j"
proof -
  note f = findById_found [OF assms]
  let ?f = "\<lambda>d. if uid d = uid u then u else d"
  have pres: "uid (?f d) = uid d" for d by simp
  have "map_option ?f (find (\<lambda>d. uid d = j) (docs st)) = find (\<lambda>d. uid d = j) (docs st)"
  proof (cases "find (\<lambda>d. uid d = j) (docs st)")
    case None
    then show ?thesis by simp
  next
    case (Some d)
    then have dj: "uid d = j" using find_uid by blast
    show ?thesis
    proof (cases "j = i")
      case True
      then have "d = u" using Some f(3) by simp
      then show ?thesis using Some by simp
    next
      case False
      then show ?thesis using Some dj f(4) by simp
    qed
  qed
  then show ?thesis
    by (simp add: findById_def find_uid_map [of ?f, OF pres])
qed

lemma find_append_none: "find P xs = None \<Longrightarrow> find P (xs @ ys) = find P ys"
  by (induction xs) (auto split: if_splits)

subsection \<open>Favorites\<close>

lemma find_bob: "findById two_users ''u2'' = Inr (Some bob)"
  by (simp add: findById_def two_users_def ada_def bob_def)

lemma strict_eq_text: "strict_eq x (Some (JString s)) \<longleftrightarrow> x = Text s"
  by (cases x) auto

lemma filter_absent:
  "Text tid \<notin> trackId ` set ts
   \<Longrightarrow> filter (\<lambda>track. \<not> strict_eq (trackId track) (Some (JString tid))) ts = ts"
  by (induction ts) (auto simp: strict_eq_text)

lemma remove_favorite_found:
  assumes "findById st userId = Inr (Some u)"
  shows "remove_favorite st userId tid =
     (Response 200 (FavoritesBody ''Track removed from favorites''
        (filter (\<lambda>track. \<not> strict_eq (trackId track) (Some (JString tid))) (savedTracks u))),
      st\<lparr>docs := map (\<lambda>d. if uid d = uid u
        then u\<lparr>savedTracks :=
               filter (\<lambda>track. \<not> strict_eq (trackId track) (Some (JString tid))) (savedTracks u)\<rparr>
        else d) (docs st)\<rparr>)"
  using assms findById_found(1) [OF assms] by (simp add: remove_favorite_def save_docs Let_def)

text \<open>
  Where the id of the request is a string, the handlers do what the claim says: a
  string id that is already saved is refused with 400 and nothing is written, and
  removing an id that is not saved answers 200 with the saved tracks and every lookup
  unchanged.
\<close>

lemma string_duplicate_refused:
  assumes "findById st userId = Inr (Some u)"
    and "b_trackId b = Some (JString s)"
    and "Text s \<in> trackId ` set (savedTracks u)"
  shows "add_favorite pl st userId t b =
     (Response 400 (Failure ''Track already in favorites'' None), st)"
proof -
  have "find (\<lambda>track. strict_eq (trackId track) (b_trackId b)) (savedTracks u) \<noteq> None"
    using assms(2,3) by (auto simp: find_None_iff strict_eq_text)
  then show ?thesis
    using assms(1) by (auto simp: add_favorite_def)
qed

lemma remove_absent_unchanged:
  assumes "findById st userId = Inr (Some u)"
    and "Text tid \<notin> trackId ` set (savedTracks u)"
  shows "fst (remove_favorite st userId tid)
          = Response 200 (FavoritesBody ''Track removed from favorites'' (savedTracks u))"
    and "findById (snd (remove_favorite st userId tid)) i = findById st i"
proof -
  have same: "u\<lparr>savedTracks :=
      filter (\<lambda>track. \<not> strict_eq (trackId track) (Some (JString tid))) (savedTracks u)\<rparr> = u"
    by (simp add: filter_absent [OF assms(2)])
  show "fst (remove_favorite st userId tid)
          = Response 200 (FavoritesBody ''Track removed from favorites'' (savedTracks u))"
    by (simp add: remove_favorite_found [OF assms(1)] filter_absent [OF assms(2)])
  show "findById (snd (remove_favorite st userId tid)) i = findById st i"
    unfolding remove_favorite_found [OF assms(1)] same
    using save_same [OF assms(1)] by simp
qed

lemma string_id_examples:
  "add_favorite sample_platform two_users ''u2'' 9 lofi_body =
     (Response 400 (Failure ''Track already in favorites'' None), two_users)"
  "fst (remove_favorite two_users ''u2'' ''t9'') =
     Response 200 (FavoritesBody ''Track removed from favorites'' [lofi])"
proof -
  have m: "b_trackId lofi_body = Some (JString ''t1'')" "Text ''t1'' \<in> trackId ` set (savedTracks bob)"
    "Text ''t9'' \<notin> trackId ` set (savedTracks bob)" "savedTracks bob = [lofi]"
    by (simp_all add: bob_def lofi_def lofi_body_def)
  show "add_favorite sample_platform two_users ''u2'' 9 lofi_body =
     (Response 400 (Failure ''Track already in favorites'' None), two_users)"
    by (rule string_duplicate_refused [OF find_bob m(1,2)])
  show "fst (remove_favorite two_users ''u2'' ''t9'') =
     Response 200 (FavoritesBody ''Track removed from favorites'' [lofi])"
    using remove_absent_unchanged(1) [OF find_bob m(3)] by (simp add: m(4))
qed

lemma sample_text_123: "number_text sample_platform 123 = ''123''"
  by (simp add: sample_platform_def decimal_text_def)

lemma cast_numeric_body: "cast_track sample_platform t numeric_body = Some (numbered t)"
  by (simp add: cast_track_def numeric_body_def sample_text_123)

lemma add_numeric:
  assumes "findById st ''u1'' = Inr (Some u)"
    and "find (\<lambda>track. strict_eq (trackId track) (Some (JNumber 123))) (savedTracks u) = None"
  shows "add_favorite sample_platform st ''u1'' t numeric_body =
     (Response 200 (FavoritesBody ''Track added to favorites'' (savedTracks u @ [numbered t])),
      st\<lparr>docs := map (\<lambda>d. if uid d = uid u then u\<lparr>savedTracks := savedTracks u @ [numbered t]\<rparr> else d)
                    (docs st)\<rparr>)"
proof -
  have b: "b_trackId numeric_body = Some (JNumber 123)"
    by (simp add: numeric_body_def)
  show ?thesis
    using assms findById_found(1) [OF assms(1)]
    by (simp add: add_favorite_def b cast_numeric_body save_docs Let_def)
qed

text \<open>
  Claim C8. The claim does not hold of the code for a track id that is not a string.
  The handler compares the id of the request as it arrived with the saved ids, which
  the schema has cast to strings, so the number 123 is never found among them: the same
  request is accepted twice, and the profile then holds the id \<open>123\<close> twice.
\<close>

theorem numeric_track_id_saved_twice:
  "fst (add_favorite sample_platform one_user ''u1'' 3 numeric_body) =
     Response 200 (FavoritesBody ''Track added to favorites'' [numbered 3])
   \<and> add_favorite sample_platform (snd (add_favorite sample_platform one_user ''u1'' 3 numeric_body))
        ''u1'' 4 numeric_body =
       (Response 200 (FavoritesBody ''Track added to favorites'' [numbered 3, numbered 4]),
        one_user\<lparr>docs := [ada\<lparr>savedTracks := [numbered 3, numbered 4]\<rparr>]\<rparr>)
   \<and> map trackId [numbered 3, numbered 4] = [Text ''123'', Text ''123'']
   \<and> unique_tracks ada
   \<and> \<not> unique_tracks (ada\<lparr>savedTracks := [numbered 3, numbered 4]\<rparr>)"
proof -
  let ?st1 = "one_user\<lparr>docs := [ada\<lparr>savedTracks := [numbered 3]\<rparr>]\<rparr>"
  have e: "savedTracks ada = []" "uid ada = ''u1''"
    by (simp_all add: ada_def)
  have first: "add_favorite sample_platform one_user ''u1'' 3 numeric_body =
      (Response 200 (FavoritesBody ''Track added to favorites'' [numbered 3]), ?st1)"
    using add_numeric [OF find_ada, of 3] by (simp add: e one_user_def)
  have f1: "findById ?st1 ''u1'' = Inr (Some (ada\<lparr>savedTracks := [numbered 3]\<rparr>))"
    by (simp add: findById_def one_user_def e)
  have second: "add_favorite sample_platform ?st1 ''u1'' 4 numeric_body =
      (Response 200 (FavoritesBody ''Track added to favorites'' [numbered 3, numbered 4]),
       one_user\<lparr>docs := [ada\<lparr>savedTracks := [numbered 3, numbered 4]\<rparr>]\<rparr>)"
    using add_numeric [OF f1, of 4] by (simp add: e one_user_def)
  show ?thesis
    using second by (simp add: first unique_tracks_def e)
qed

subsection \<open>Recommendations for an unknown user\<close>

lemma basic_seeds_user_id: "basic_seeds (q\<lparr>q_user_id := v\<rparr>) = basic_seeds q"
  by (simp add: basic_seeds_def Let_def)

lemma personalize_miss:
  assumes "given user_id" "findById st (the user_id) = Inr None \<or> isl (findById st (the user_id))"
  shows "personalize st user_id s = s"
  using assms by (cases "findById st (the user_id)") (auto simp: personalize_def apply_profile_def)

lemma demo_recommendations:
  "getRecommendations demo_env warm_cache s =
     (Inr (JObject [(''items'', JArray [JString ''t1'', JString ''t2''])]), warm_cache,
      [ApiRequest ''tok'' (''/v1/recommendations'', recommendation_params s)])"
  by (simp add: getRecommendations_def demo_request demo_reply_def)

lemma lookup_examples:
  "findById one_user ''nobody'' = Inr None" "isl (findById offline_store ''u1'')"
  by (simp_all add: findById_def one_user_def offline_store_def ada_def)

text \<open>
  Claim C9. When the request carries a user id and the lookup finds no profile or
  throws, the seeds are those of the mood, override and default steps alone, in both
  server files; the handler's whole answer is the one it gives to the same request
  without the user id; and when the catalog call succeeds the answer is 200 with the
  recommendations and those seeds.
\<close>

theorem lookup_miss_is_not_fatal:
  "given (q_user_id q)
   \<and> (findById st (the (q_user_id q)) = Inr None \<or> isl (findById st (the (q_user_id q)))) \<longrightarrow>
     build_seeds pl st q =
       default_genres (apply_overrides pl (q_energy_level q) (q_dance_level q)
         (apply_mood (q_mood q) (basic_seeds q)))
   \<and> build_seeds_mock pl st q =
       default_genres_mock (apply_overrides pl (q_energy_level q) (q_dance_level q)
         (apply_mood (q_mood q) (basic_seeds q)))
   \<and> build_seeds pl st q = build_seeds pl st (q\<lparr>q_user_id := None\<rparr>)
   \<and> build_seeds_mock pl st q = build_seeds_mock pl st (q\<lparr>q_user_id := None\<rparr>)
   \<and> recommendations_handler pl w c st q = recommendations_handler pl w c st (q\<lparr>q_user_id := None\<rparr>)
   \<and> (getRecommendations w c (build_seeds pl st q) = (Inr recs, c', reqs) \<longrightarrow>
        recommendations_handler pl w c st q =
          (Response 200 (RecommendationsBody recs (build_seeds pl st q) (js_length recs)), c', reqs))"
proof (intro impI)
  assume h: "given (q_user_id q)
   \<and> (findById st (the (q_user_id q)) = Inr None \<or> isl (findById st (the (q_user_id q))))"
  let ?s = "apply_overrides pl (q_energy_level q) (q_dance_level q) (apply_mood (q_mood q) (basic_seeds q))"
  have pre: "seeds_before_default pl st q = ?s"
    using h by (simp add: seeds_before_default_def personalize_miss)
  have pre': "seeds_before_default pl st (q\<lparr>q_user_id := None\<rparr>) = ?s"
    by (simp add: seeds_before_default_def personalize_def basic_seeds_user_id)
  have b: "build_seeds pl st q = build_seeds pl st (q\<lparr>q_user_id := None\<rparr>)"
    "build_seeds_mock pl st q = build_seeds_mock pl st (q\<lparr>q_user_id := None\<rparr>)"
    by (simp_all add: build_seeds_def build_seeds_mock_def pre pre')
  have r: "recommendations_handler pl w c st q = recommendations_handler pl w c st (q\<lparr>q_user_id := None\<rparr>)"
    by (simp add: recommendations_handler_def b(1))
  have ok: "recommendations_handler pl w c st q =
          (Response 200 (RecommendationsBody recs (build_seeds pl st q) (js_length recs)), c', reqs)"
    if "getRecommendations w c (build_seeds pl st q) = (Inr recs, c', reqs)"
    using that by (simp add: recommendations_handler_def)
  show "build_seeds pl st q = default_genres ?s
   \<and> build_seeds_mock pl st q = default_genres_mock ?s
   \<and> build_seeds pl st q = build_seeds pl st (q\<lparr>q_user_id := None\<rparr>)
   \<and> build_seeds_mock pl st q = build_seeds_mock pl st (q\<lparr>q_user_id := None\<rparr>)
   \<and> recommendations_handler pl w c st q = recommendations_handler pl w c st (q\<lparr>q_user_id := None\<rparr>)
   \<and> (getRecommendations w c (build_seeds pl st q) = (Inr recs, c', reqs) \<longrightarrow>
        recommendations_handler pl w c st q =
          (Response 200 (RecommendationsBody recs (build_seeds pl st q) (js_length recs)), c', reqs))"
    using b r ok by (simp add: build_seeds_def build_seeds_mock_def pre)
qed

theorem lookup_miss_is_not_fatal_witness:
  "given (Some ''nobody'') \<and> findById one_user ''nobody'' = Inr None
   \<and> isl (findById offline_store ''u1'')
   \<and> build_seeds sample_platform offline_store (no_query\<lparr>q_user_id := Some ''u1'', q_mood := Some ''energetic''\<rparr>) =
       [''target_energy'' \<mapsto> JNum (Fin 0.9), ''target_danceability'' \<mapsto> JNum (Fin 0.8),
        ''seed_genres'' \<mapsto> JList [''pop'', ''rock'', ''hip-hop'']]
   \<and> fst (recommendations_handler sample_platform demo_env warm_cache one_user
            (no_query\<lparr>q_user_id := Some ''nobody'', q_mood := Some ''energetic''\<rparr>)) =
       Response 200
         (RecommendationsBody (JObject [(''items'', JArray [JString ''t1'', JString ''t2''])])
            [''target_energy'' \<mapsto> JNum (Fin 0.9), ''target_danceability'' \<mapsto> JNum (Fin 0.8),
             ''seed_genres'' \<mapsto> JList [''pop'', ''rock'', ''hip-hop'']]
            None)"
proof -
  let ?q1 = "no_query\<lparr>q_user_id := Some ''nobody'', q_mood := Some ''energetic''\<rparr>"
  let ?q2 = "no_query\<lparr>q_user_id := Some ''u1'', q_mood := Some ''energetic''\<rparr>"
  let ?s = "[''target_energy'' \<mapsto> JNum (Fin 0.9), ''target_danceability'' \<mapsto> JNum (Fin 0.8),
        ''seed_genres'' \<mapsto> JList [''pop'', ''rock'', ''hip-hop'']]"
  have e: "build_seeds pl st (no_query\<lparr>q_mood := Some ''energetic''\<rparr>) = ?s" for pl st
    by (simp add: build_seeds_def energetic_pre default_genres_def)
  have u: "?q1\<lparr>q_user_id := None\<rparr> = no_query\<lparr>q_mood := Some ''energetic''\<rparr>"
    "?q2\<lparr>q_user_id := None\<rparr> = no_query\<lparr>q_mood := Some ''energetic''\<rparr>"
    "q_user_id ?q1 = Some ''nobody''" "q_user_id ?q2 = Some ''u1''"
    by (simp_all add: no_query_def)
  have p1: "given (q_user_id ?q1)
      \<and> (findById one_user (the (q_user_id ?q1)) = Inr None \<or> isl (findById one_user (the (q_user_id ?q1))))"
    and p2: "given (q_user_id ?q2)
      \<and> (findById offline_store (the (q_user_id ?q2)) = Inr None
          \<or> isl (findById offline_store (the (q_user_id ?q2))))"
    by (simp_all add: u(3,4) lookup_examples)
  have g: "getRecommendations demo_env warm_cache (build_seeds sample_platform one_user ?q1) =
      (Inr (JObject [(''items'', JArray [JString ''t1'', JString ''t2''])]), warm_cache,
       [ApiRequest ''tok'' (''/v1/recommendations'', recommendation_params (build_seeds sample_platform one_user ?q1))])"
    by (rule demo_recommendations)
  from lookup_miss_is_not_fatal [where pl = sample_platform and q = ?q1 and st = one_user
      and w = demo_env and c = warm_cache
      and recs = "JObject [(''items'', JArray [JString ''t1'', JString ''t2''])]" and c' = warm_cache
      and reqs = "[ApiRequest ''tok'' (''/v1/recommendations'',
          recommendation_params (build_seeds sample_platform one_user ?q1))]"] p1 g
  have b1: "build_seeds sample_platform one_user ?q1 = build_seeds sample_platform one_user (?q1\<lparr>q_user_id := None\<rparr>)"
    and r1: "recommendations_handler sample_platform demo_env warm_cache one_user ?q1 =
      (Response 200 (RecommendationsBody (JObject [(''items'', JArray [JString ''t1'', JString ''t2''])])
         (build_seeds sample_platform one_user ?q1)
         (js_length (JObject [(''items'', JArray [JString ''t1'', JString ''t2''])]))),
       warm_cache,
       [ApiRequest ''tok'' (''/v1/recommendations'', recommendation_params (build_seeds sample_platform one_user ?q1))])"
    by blast+
  from lookup_miss_is_not_fatal [where pl = sample_platform and q = ?q2 and st = offline_store
      and w = demo_env and c = warm_cache] p2
  have b2: "build_seeds sample_platform offline_store ?q2 = build_seeds sample_platform offline_store (?q2\<lparr>q_user_id := None\<rparr>)"
    by blast
  have s1: "build_seeds sample_platform one_user ?q1 = ?s"
    unfolding b1 u(1) by (rule e)
  have s2: "build_seeds sample_platform offline_store ?q2 = ?s"
    unfolding b2 u(2) by (rule e)
  show ?thesis
    using lookup_examples s2 by (simp add: r1 s1)
qed

subsection \<open>Creating a user twice\<close>

text \<open>
  Claim C10. When the store holds a profile with the email of the request,
  \<open>POST /api/users\<close> answers 200 with that profile and the store is unchanged, whatever
  the name and the favorite genres of the request are. A request that created a profile
  (201), sent again with the same email, answers 200 with the profile just created and
  writes nothing.
\<close>

theorem existing_email_returns_profile:
  "(online st \<and> find (\<lambda>d. email d = b_email b) (docs st) = Some u \<longrightarrow>
      create_user st new_id t b = (Response 200 (UserBody u), st)
    \<and> create_user st new_id' t' (b\<lparr>b_name := n, b_favoriteGenres := g\<rparr>) = (Response 200 (UserBody u), st)
    \<and> u \<in> set (docs st) \<and> email u = b_email b)
   \<and> (create_user st new_id t b = (Response 201 (UserBody u'), st') \<longrightarrow>
        create_user st' new_id' t' (b\<lparr>b_name := n, b_favoriteGenres := g\<rparr>)
          = (Response 200 (UserBody u'), st'))"
proof (intro conjI impI)
  assume h: "online st \<and> find (\<lambda>d. email d = b_email b) (docs st) = Some u"
  then show "create_user st new_id t b = (Response 200 (UserBody u), st)"
    "create_user st new_id' t' (b\<lparr>b_name := n, b_favoriteGenres := g\<rparr>) = (Response 200 (UserBody u), st)"
    by (simp_all add: create_user_def findOne_email_def)
  from h have "find (\<lambda>d. email d = b_email b) (docs st) = Some u" by simp
  then show "u \<in> set (docs st)" "email u = b_email b"
    by (auto simp: find_Some_iff)
next
  assume h: "create_user st new_id t b = (Response 201 (UserBody u'), st')"
  let ?u = "\<lparr>uid = new_id, name = b_name b, email = b_email b,
              favoriteGenres = (case b_favoriteGenres b of None \<Rightarrow> [''pop'', ''rock''] | Some gs \<Rightarrow> gs),
              savedTracks = [], playlists = [],
              preferences = Some \<lparr>energy = Fin 0.5, danceability = Fin 0.5, valence = Fin 0.5\<rparr>,
              createdAt = t\<rparr>"
  have on: "online st"
    using h by (auto simp: create_user_def findOne_email_def split: if_splits)
  have none: "find (\<lambda>d. email d = b_email b) (docs st) = None"
    using h on by (auto simp: create_user_def findOne_email_def split: option.splits)
  have sv: "save_new st ?u = Inr st' \<and> u' = ?u"
    using h on none by (auto simp: create_user_def findOne_email_def Let_def split: sum.splits)
  then have st': "st' = st\<lparr>docs := docs st @ [?u]\<rparr>" and u': "u' = ?u"
    by (auto simp: save_new_def split: if_splits)
  have "find (\<lambda>d. email d = b_email b) (docs st') = Some u'"
    using none unfolding st' u' by (simp add: find_append_none)
  then show "create_user st' new_id' t' (b\<lparr>b_name := n, b_favoriteGenres := g\<rparr>)
          = (Response 200 (UserBody u'), st')"
    using on by (simp add: create_user_def findOne_email_def st')
qed

theorem existing_email_returns_profile_witness:
  "online two_users
   \<and> find (\<lambda>d. email d = ''ada@example.org'') (docs two_users) = Some ada
   \<and> create_user two_users ''u9'' 5
        \<lparr>b_name = Some ''Eve'', b_email = ''ada@example.org'', b_favoriteGenres = Some [''metal'']\<rparr>
       = (Response 200 (UserBody ada), two_users)
   \<and> create_user two_users ''u7'' 8
        \<lparr>b_name = None, b_email = ''ada@example.org'', b_favoriteGenres = None\<rparr>
       = (Response 200 (UserBody ada), two_users)"
proof -
  have f: "online two_users" "find (\<lambda>d. email d = ''ada@example.org'') (docs two_users) = Some ada"
    by (simp_all add: two_users_def ada_def)
  show ?thesis
    using existing_email_returns_profile [of two_users
        "\<lparr>b_name = Some ''Eve'', b_email = ''ada@example.org'', b_favoriteGenres = Some [''metal'']\<rparr>"
        ada "''u9''" 5 "''u7''" 8 None None] f
    by simp
qed

end
